theory Spec2Isabelle
  imports Complex_Main
begin

section \<open>Knowledge store: sources and chunks\<close>

text \<open>
  The store methods of \<^verbatim>\<open>knowledge_base.rs\<close> return \<^verbatim>\<open>Result<_, String>\<close>:
  an error is a message, \<open>Inl\<close> of a sum.
\<close>

type_synonym err = string

record KnowledgeSource =
  url :: string
  title :: string
  source_type :: string
  raw_content :: string
  tags :: "string list"
  created_at :: int
  last_updated :: int

text \<open>
  \<^verbatim>\<open>KnowledgeChunk { source_id, text, chunk_index: i32, embedding: Vec<f32> }\<close>.
  The floats of an embedding are read as reals: nothing below depends on rounding.
\<close>

record KnowledgeChunk =
  source_id :: string
  chunk_text :: string
  chunk_index :: int
  embedding :: "real list"

subsection \<open>Meetings and what they own\<close>

text \<open>
  The rows of the meeting tables, with the fields of the interfaces in
  \<^verbatim>\<open>transcription.ts\<close>; times are milliseconds. A field name that two tables share
  carries the table's prefix here. A row's record id is held beside the row in its table.
\<close>

record Meeting =
  meeting_title :: string
  start_time :: int
  end_time :: "int option"
  participants :: "string list"
  summary :: "string option"

record TranscriptSegment =
  seg_meeting_id :: string
  speaker :: string
  seg_text :: string
  start_ms :: nat
  end_ms :: nat
  seg_embedding :: "real list"

record ActionItem =
  act_meeting_id :: string
  act_text :: string
  assignee :: "string option"
  deadline :: "string option"
  status :: string
  act_created_at :: int

record Decision =
  dec_meeting_id :: string
  dec_text :: string
  dec_participants :: "string list"
  dec_created_at :: int

record Topic =
  topic_name :: string
  topic_embedding :: "real list"
  mention_count :: nat
  last_mentioned :: int

record Person =
  person_name :: string
  aliases :: "string list"
  first_seen :: int
  last_seen :: int

text \<open>The table \<^verbatim>\<open>entity_relation\<close>, with the fields of its schema.\<close>

record EntityRelation =
  source_entity :: string
  rel_source_type :: string
  relation :: string
  target_entity :: string
  target_type :: string
  confidence :: real
  rel_meeting_id :: "string option"
  knowledge_source_id :: "string option"
  rel_created_at :: int

text \<open>The table \<^verbatim>\<open>meeting_knowledge\<close>, with the fields of its schema.\<close>

record MeetingKnowledge =
  mk_meeting_id :: string
  mk_source_id :: string
  relevance_score :: real
  assigned_by :: string

subsection \<open>The store\<close>

text \<open>
  The tables of the store. \<open>knowledge_source\<close> is keyed by the id part of the record id
  (\<^verbatim>\<open>xyz123\<close> of \<^verbatim>\<open>knowledge_source:xyz123\<close>); reading a key gives the outcome of the
  select that \<^verbatim>\<open>get_knowledge_source\<close> runs after it has normalised the id (its body is
  elided in the source): an error message, no row, or the row. \<open>meeting\<close> holds every
  meeting with its id. The graph relations \<open>mentioned_in\<close> (person \<open>\<rightarrow>\<close> meeting) and
  \<open>discussed_in\<close> (topic \<open>\<rightarrow>\<close> meeting) are lists of edges, a name and a meeting id.
  \<open>db_status\<close> is the state of the connection: \<open>Some e\<close> makes every statement fail
  with \<open>e\<close>.
\<close>

record kb =
  db_status :: "err option"
  knowledge_source :: "string \<Rightarrow> err + KnowledgeSource option"
  knowledge_chunk :: "KnowledgeChunk list"
  meeting :: "(string \<times> Meeting) list"
  segment :: "TranscriptSegment list"
  action_item :: "ActionItem list"
  decision :: "Decision list"
  person :: "Person list"
  topic :: "Topic list"
  entity_relation :: "EntityRelation list"
  meeting_knowledge :: "MeetingKnowledge list"
  mentioned_in :: "(string \<times> string) list"
  discussed_in :: "(string \<times> string) list"

text \<open>The store after its initialisation: every table empty.\<close>

definition empty_kb :: kb where
  "empty_kb =
     \<lparr>db_status = None, knowledge_source = (\<lambda>k. Inr None), knowledge_chunk = [],
      meeting = [], segment = [], action_item = [], decision = [], person = [], topic = [],
      entity_relation = [], meeting_knowledge = [], mentioned_in = [], discussed_in = []\<rparr>"

subsection \<open>Record ids\<close>

text \<open>\<^verbatim>\<open>str::starts_with\<close> and \<^verbatim>\<open>str::strip_prefix\<close>.\<close>

fun starts_with :: "string \<Rightarrow> string \<Rightarrow> bool" where
  "starts_with s [] = True"
| "starts_with [] (p # ps) = False"
| "starts_with (c # cs) (p # ps) = (c = p \<and> starts_with cs ps)"

fun strip_prefix :: "string \<Rightarrow> string \<Rightarrow> string option" where
  "strip_prefix s [] = Some s"
| "strip_prefix [] (p # ps) = None"
| "strip_prefix (c # cs) (p # ps) = (if c = p then strip_prefix cs ps else None)"

definition unwrap_or :: "'a option \<Rightarrow> 'a \<Rightarrow> 'a" where
  "unwrap_or v d = (case v of Some x \<Rightarrow> x | None \<Rightarrow> d)"

definition source_prefix :: string where
  "source_prefix = ''knowledge_source:''"

text \<open>
  \<^verbatim>\<open>let id_part = if source_id.starts_with("knowledge_source:") {
       source_id.strip_prefix("knowledge_source:").unwrap_or(source_id) } else { source_id };\<close>
\<close>

definition id_part :: "string \<Rightarrow> string" where
  "id_part sid =
     (if starts_with sid source_prefix
      then unwrap_or (strip_prefix sid source_prefix) sid
      else sid)"

text \<open>The select on the table \<open>knowledge_source\<close>, by id part.\<close>

definition select_source :: "kb \<Rightarrow> string \<Rightarrow> err + KnowledgeSource option" where
  "select_source db key =
     (case db_status db of Some e \<Rightarrow> Inl e | None \<Rightarrow> knowledge_source db key)"

definition get_knowledge_source :: "kb \<Rightarrow> string \<Rightarrow> err + KnowledgeSource option" where
  "get_knowledge_source db sid = select_source db (id_part sid)"

subsection \<open>Orphan cleanup\<close>

text \<open>
  \<^verbatim>\<open>SELECT source_id FROM knowledge_chunk GROUP BY source_id\<close>: one row for every
  distinct \<open>source_id\<close>. The field is a string in every chunk (the type of its schema),
  so the \<^verbatim>\<open>if let Some(source_id)\<close> of the loop takes every row.
\<close>

definition select_chunk_source_ids :: "kb \<Rightarrow> err + string list" where
  "select_chunk_source_ids db =
     (case db_status db of
        Some e \<Rightarrow> Inl e
      | None \<Rightarrow> Inr (remdups (map source_id (knowledge_chunk db))))"

text \<open>\<^verbatim>\<open>DELETE FROM knowledge_chunk WHERE source_id = $source_id\<close>.\<close>

definition delete_chunks_of :: "kb \<Rightarrow> string \<Rightarrow> err + kb" where
  "delete_chunks_of db sid =
     (case db_status db of
        Some e \<Rightarrow> Inl e
      | None \<Rightarrow>
          Inr (db\<lparr>knowledge_chunk := filter (\<lambda>c. source_id c \<noteq> sid) (knowledge_chunk db)\<rparr>))"

text \<open>
  The loop of \<^verbatim>\<open>cleanup_orphaned_chunks\<close> over the rows of the first query, with
  \<^verbatim>\<open>deleted_count\<close> as accumulator. Every \<^verbatim>\<open>?\<close> leaves the function with the error
  and the store as it is by then. \<^verbatim>\<open>deleted_count\<close> is a \<^verbatim>\<open>usize\<close> that grows by one for a
  row of the query, so it stays below the number of chunks and cannot wrap.
\<close>

fun cleanup_loop :: "kb \<Rightarrow> string list \<Rightarrow> nat \<Rightarrow> (err + nat) \<times> kb" where
  "cleanup_loop db [] deleted_count = (Inr deleted_count, db)"
| "cleanup_loop db (sid # rows) deleted_count =
     (case get_knowledge_source db sid of
        Inl e \<Rightarrow> (Inl e, db)
      | Inr (Some src) \<Rightarrow> cleanup_loop db rows deleted_count
      | Inr None \<Rightarrow>
          (case delete_chunks_of db sid of
             Inl e \<Rightarrow> (Inl e, db)
           | Inr db' \<Rightarrow> cleanup_loop db' rows (deleted_count + 1)))"

definition cleanup_orphaned_chunks :: "kb \<Rightarrow> (err + nat) \<times> kb" where
  "cleanup_orphaned_chunks db =
     (case select_chunk_source_ids db of
        Inl e \<Rightarrow> (Inl e, db)
      | Inr rows \<Rightarrow> cleanup_loop db rows 0)"

text \<open>
  A chunk is orphaned when the source its \<open>source_id\<close> names, bare or fully qualified,
  is not in the store.
\<close>

definition orphaned :: "kb \<Rightarrow> string \<Rightarrow> bool" where
  "orphaned db sid = (knowledge_source db (id_part sid) = Inr None)"

text \<open>
  The ids whose chunks the loop deletes, for a healthy connection: the rows without a
  source, up to the first row whose lookup fails.
\<close>

fun doomed :: "kb \<Rightarrow> string list \<Rightarrow> string list" where
  "doomed db [] = []"
| "doomed db (sid # rows) =
     (case knowledge_source db (id_part sid) of
        Inl e \<Rightarrow> []
      | Inr (Some src) \<Rightarrow> doomed db rows
      | Inr None \<Rightarrow> sid # doomed db rows)"

subsection \<open>Example stores\<close>

text \<open>Two chunks of one deleted source, stored under the fully qualified id.\<close>

definition kb_two_orphans :: kb where
  "kb_two_orphans =
     empty_kb\<lparr>knowledge_chunk :=
        [\<lparr>source_id = ''knowledge_source:gone'', chunk_text = ''a'', chunk_index = 0, embedding = []\<rparr>,
         \<lparr>source_id = ''knowledge_source:gone'', chunk_text = ''b'', chunk_index = 1, embedding = []\<rparr>]\<rparr>"

text \<open>One source, with the id part \<^verbatim>\<open>abc\<close>, and no chunk.\<close>

definition kb_one_source :: kb where
  "kb_one_source =
     empty_kb\<lparr>knowledge_source := (\<lambda>k. if k = ''abc''
         then Inr (Some \<lparr>url = ''https://example.org'', title = ''Example'', source_type = ''web'',
                raw_content = ''text'', tags = [], created_at = 0, last_updated = 0\<rparr>)
         else Inr None)\<rparr>"

section \<open>Vector search over the knowledge chunks\<close>

text \<open>
  The embedding collaborator (\<^verbatim>\<open>embeddings.rs\<close>): \<^verbatim>\<open>embed\<close> can fail, and the cosine
  similarity that the query evaluates as \<^verbatim>\<open>vector::similarity::cosine\<close>. Both are
  parameters of the model.
\<close>

record embedding_engine =
  embed :: "string \<Rightarrow> err + real list"
  cosine :: "real list \<Rightarrow> real list \<Rightarrow> real"

record KnowledgeSearchResult =
  chunk :: KnowledgeChunk
  source_title :: string
  source_url :: string
  similarity :: real

text \<open>
  The \<^verbatim>\<open>WHERE\<close> clause of the query. With tags it is
  \<^verbatim>\<open>source_id IN (SELECT id FROM knowledge_source WHERE tags CONTAINSANY $tags)\<close>: the
  subquery gives rows of the shape \<^verbatim>\<open>{ id: knowledge_source:xyz }\<close>, and \<^verbatim>\<open>IN\<close> compares
  the string \<open>source_id\<close> of a chunk with these rows. A string equals no row, so with
  tags the statement selects no chunk. Without tags every chunk is ranked (the run of
  \<^verbatim>\<open>search_knowledge(question, 5, None)\<close> in the log finds its five hits among the 95
  chunks of the store).
\<close>

definition tag_filter :: "string list option \<Rightarrow> KnowledgeChunk \<Rightarrow> bool" where
  "tag_filter tgs c = (case tgs of None \<Rightarrow> True | Some ts \<Rightarrow> False)"

text \<open>
  \<^verbatim>\<open>SELECT *, vector::similarity::cosine(embedding, $embedding) AS similarity
  FROM knowledge_chunk WHERE ... ORDER BY similarity DESC LIMIT $limit\<close>
\<close>

definition select_similar_chunks ::
  "embedding_engine \<Rightarrow> kb \<Rightarrow> real list \<Rightarrow> nat \<Rightarrow> string list option
     \<Rightarrow> err + (KnowledgeChunk \<times> real) list" where
  "select_similar_chunks eng db query_embedding limit tgs =
     (case db_status db of
        Some e \<Rightarrow> Inl e
      | None \<Rightarrow>
          Inr (take limit
                (sort_key (\<lambda>row. - snd row)
                  (map (\<lambda>c. (c, cosine eng (embedding c) query_embedding))
                    (filter (tag_filter tgs) (knowledge_chunk db))))))"

text \<open>
  The source of a hit, with the fallback of \<^verbatim>\<open>search_knowledge\<close>:
  \<^verbatim>\<open>Ok(Some(source)) => (source.title, source.url)\<close>, and for \<^verbatim>\<open>Ok(None)\<close> and \<^verbatim>\<open>Err(e)\<close>
  \<^verbatim>\<open>(format!("Source {}", chunk_sim.source_id), String::new())\<close>.
\<close>

definition resolve_source :: "kb \<Rightarrow> string \<Rightarrow> string \<times> string" where
  "resolve_source db sid =
     (case get_knowledge_source db sid of
        Inr (Some source) \<Rightarrow> (title source, url source)
      | Inr None \<Rightarrow> (''Source '' @ sid, [])
      | Inl e \<Rightarrow> (''Source '' @ sid, []))"

definition resolve_hit :: "kb \<Rightarrow> KnowledgeChunk \<times> real \<Rightarrow> KnowledgeSearchResult" where
  "resolve_hit db hit =
     \<lparr>chunk = fst hit,
      source_title = fst (resolve_source db (source_id (fst hit))),
      source_url = snd (resolve_source db (source_id (fst hit))),
      similarity = snd hit\<rparr>"

definition search_knowledge ::
  "embedding_engine \<Rightarrow> kb \<Rightarrow> string \<Rightarrow> nat \<Rightarrow> string list option
     \<Rightarrow> err + KnowledgeSearchResult list" where
  "search_knowledge eng db query limit tgs =
     (case embed eng query of
        Inl e \<Rightarrow> Inl e
      | Inr query_embedding \<Rightarrow>
          (case select_similar_chunks eng db query_embedding limit tgs of
             Inl e \<Rightarrow> Inl e
           | Inr hits \<Rightarrow> Inr (map (resolve_hit db) hits)))"

text \<open>A source lookup that does not give a source: no row, or an error.\<close>

definition resolution_fails :: "kb \<Rightarrow> string \<Rightarrow> bool" where
  "resolution_fails db sid =
     (case get_knowledge_source db sid of
        Inr (Some source) \<Rightarrow> False
      | Inr None \<Rightarrow> True
      | Inl e \<Rightarrow> True)"

subsection \<open>Example: three chunks, one source readable\<close>

definition eng_first_component :: embedding_engine where
  "eng_first_component =
     \<lparr>embed = (\<lambda>q. Inr [1]),
      cosine = (\<lambda>a b. case a of [] \<Rightarrow> 0 | x # xs \<Rightarrow> x)\<rparr>"

definition kb_three_chunks :: kb where
  "kb_three_chunks =
     empty_kb\<lparr>knowledge_source := (\<lambda>k.
         if k = ''abc''
         then Inr (Some \<lparr>url = ''https://example.org'', title = ''Example'', source_type = ''web'',
                raw_content = ''text'', tags = [], created_at = 0, last_updated = 0\<rparr>)
         else if k = ''bad'' then Inl ''Serialization''
         else Inr None),
      knowledge_chunk :=
        [\<lparr>source_id = ''knowledge_source:abc'', chunk_text = ''a'', chunk_index = 0, embedding = [8/10]\<rparr>,
         \<lparr>source_id = ''knowledge_source:gone'', chunk_text = ''b'', chunk_index = 0, embedding = [9/10]\<rparr>,
         \<lparr>source_id = ''knowledge_source:bad'', chunk_text = ''c'', chunk_index = 0, embedding = [7/10]\<rparr>]\<rparr>"

section \<open>Ingestion of a knowledge source\<close>

subsection \<open>Entity and relationship extraction\<close>

text \<open>
  An extracted entity is a text with its label, \<^verbatim>\<open>("knowledge base", "topic")\<close>; a
  relationship is a source entity, a relation label and a target entity.
\<close>

type_synonym entity = "string \<times> string"
type_synonym relationship = "string \<times> string \<times> string"

text \<open>
  The extraction collaborator (\<^verbatim>\<open>entities.rs\<close>). The two model calls are parameters:
  the entity inference that opens \<^verbatim>\<open>extract_with_relations\<close> (elided in the source) and
  \<^verbatim>\<open>try_extract_relationships\<close>; each can fail.
\<close>

record entity_engine =
  infer_entities :: "string \<Rightarrow> err + entity list"
  try_extract_relationships :: "string \<Rightarrow> entity list \<Rightarrow> err + relationship list"

text \<open>
  \<^verbatim>\<open>if entities.is_empty() { return Ok((entities, vec![])); }
  let relationships = match self.try_extract_relationships(entity_output, &entities) {
      Ok(rels) => rels,
      Err(_) => vec![], // Silently skip on error
  };\<close>
\<close>

definition extract_with_relations ::
  "entity_engine \<Rightarrow> string \<Rightarrow> err + (entity list \<times> relationship list)" where
  "extract_with_relations ee txt =
     (case infer_entities ee txt of
        Inl e \<Rightarrow> Inl e
      | Inr entities \<Rightarrow>
          if entities = [] then Inr (entities, [])
          else Inr (entities,
                 (case try_extract_relationships ee txt entities of
                    Inr rels \<Rightarrow> rels
                  | Inl e \<Rightarrow> [])))"

subsection \<open>The sample of paragraphs\<close>

text \<open>
  \<^verbatim>\<open>content.split("\n\n")\<close>: the pieces between the non-overlapping occurrences of two
  line feeds, found from the left; \<open>acc\<close> is the piece being read.
\<close>

fun split_acc :: "string \<Rightarrow> string \<Rightarrow> string list" where
  "split_acc acc [] = [acc]"
| "split_acc acc [c] = [acc @ [c]]"
| "split_acc acc (c # d # cs) =
     (if c = CHR 0x0A \<and> d = CHR 0x0A then acc # split_acc [] cs
      else split_acc (acc @ [c]) (d # cs))"

definition split_paragraphs :: "string \<Rightarrow> string list" where
  "split_paragraphs content = split_acc [] content"

text \<open>
  \<^verbatim>\<open>content.split("\n\n").filter(|s| s.len() > 50).take(20).collect()\<close>;
  \<^verbatim>\<open>len()\<close> counts bytes, as \<open>length\<close> does on a \<open>string\<close>.
\<close>

definition text_chunks :: "string \<Rightarrow> string list" where
  "text_chunks content = take 20 (filter (\<lambda>s. length s > 50) (split_paragraphs content))"

subsection \<open>\<^verbatim>\<open>add_knowledge_source\<close>\<close>

text \<open>
  The parts of \<^verbatim>\<open>knowledge_base.rs\<close> and \<^verbatim>\<open>chunker.rs\<close> that
  \<^verbatim>\<open>add_knowledge_source\<close> calls and the source does not show are parameters: the
  creation of the source row (which gives its id), the chunker, and the two methods that
  store what was extracted. A storing method returns its result and the store it leaves.
\<close>

record source_writers =
  create_source ::
    "kb \<Rightarrow> string \<Rightarrow> string \<Rightarrow> string \<Rightarrow> string \<Rightarrow> string list \<Rightarrow> err + (string \<times> kb)"
  chunk_markdown :: "string \<Rightarrow> string list"
  process_entities_for_source :: "kb \<Rightarrow> string \<Rightarrow> entity list \<Rightarrow> (err + unit) \<times> kb"
  process_relationships_for_source ::
    "kb \<Rightarrow> string \<Rightarrow> relationship list \<Rightarrow> (err + unit) \<times> kb"

text \<open>\<^verbatim>\<open>chunk.chunk_index as i32\<close>: the cast of a \<^verbatim>\<open>usize\<close> keeps the low 32 bits, signed.\<close>

definition as_i32 :: "nat \<Rightarrow> int" where
  "as_i32 i = (int i + 2147483648) mod 4294967296 - 2147483648"

text \<open>\<^verbatim>\<open>self.db.create("knowledge_chunk").content(kb_chunk).await?\<close>\<close>

definition create_chunk :: "kb \<Rightarrow> KnowledgeChunk \<Rightarrow> err + kb" where
  "create_chunk db c =
     (case db_status db of
        Some e \<Rightarrow> Inl e
      | None \<Rightarrow> Inr (db\<lparr>knowledge_chunk := knowledge_chunk db @ [c]\<rparr>))"

text \<open>
  \<^verbatim>\<open>for chunk in chunks { let embedding = self.embedding_engine.embed(&chunk.text)?; ...
  self.db.create("knowledge_chunk").content(kb_chunk).await?; }\<close>, over the chunks with
  their indices.
\<close>

fun store_chunks ::
  "embedding_engine \<Rightarrow> kb \<Rightarrow> string \<Rightarrow> (nat \<times> string) list \<Rightarrow> (err + unit) \<times> kb" where
  "store_chunks eng db sid [] = (Inr (), db)"
| "store_chunks eng db sid ((i, txt) # chunks) =
     (case embed eng txt of
        Inl e \<Rightarrow> (Inl e, db)
      | Inr emb \<Rightarrow>
          (case create_chunk db
                  \<lparr>source_id = sid, chunk_text = txt, chunk_index = as_i32 i, embedding = emb\<rparr> of
             Inl e \<Rightarrow> (Inl e, db)
           | Inr db' \<Rightarrow> store_chunks eng db' sid chunks))"

text \<open>
  The loop over the sample. The results of the two storing methods are dropped
  (\<^verbatim>\<open>.await.ok()\<close>); a failed extraction is printed and the loop goes on. The state is
  the store and the lines printed.
\<close>

fun extract_sample ::
  "entity_engine \<Rightarrow> source_writers \<Rightarrow> string \<Rightarrow> string list \<Rightarrow> kb \<times> string list
     \<Rightarrow> kb \<times> string list" where
  "extract_sample ee w sid [] st = st"
| "extract_sample ee w sid (text_chunk # rest) st =
     (case extract_with_relations ee text_chunk of
        Inr (entities, relationships) \<Rightarrow>
          (let db1 = snd (process_entities_for_source w (fst st) sid entities);
               db2 = snd (process_relationships_for_source w db1 sid relationships)
           in extract_sample ee w sid rest (db2, snd st))
      | Inl e \<Rightarrow>
          extract_sample ee w sid rest (fst st, snd st @ [''Entity extraction failed: '' @ e]))"

text \<open>
  \<^verbatim>\<open>add_knowledge_source\<close>: the source row, the chunks with their embeddings, then the
  extraction over the sample; the result, the store and the lines printed.
\<close>

definition add_knowledge_source ::
  "embedding_engine \<Rightarrow> entity_engine \<Rightarrow> source_writers \<Rightarrow> kb
     \<Rightarrow> string \<Rightarrow> string \<Rightarrow> string \<Rightarrow> string \<Rightarrow> string list
     \<Rightarrow> (err + string) \<times> kb \<times> string list" where
  "add_knowledge_source eng ee w db u ttl content stype tgs =
     (case create_source w db u ttl content stype tgs of
        Inl e \<Rightarrow> (Inl e, db, [])
      | Inr (sid, db1) \<Rightarrow>
          (case store_chunks eng db1 sid (enumerate 0 (chunk_markdown w content)) of
             (Inl e, db2) \<Rightarrow> (Inl e, db2, [])
           | (Inr u, db2) \<Rightarrow>
               (case extract_sample ee w sid (text_chunks content) (db2, []) of
                  (db3, printed) \<Rightarrow> (Inr sid, db3, printed))))"

text \<open>Two extraction engines that answer alike on a text.\<close>

definition engines_agree_on :: "entity_engine \<Rightarrow> entity_engine \<Rightarrow> string \<Rightarrow> bool" where
  "engines_agree_on ee ee' txt =
     (infer_entities ee txt = infer_entities ee' txt \<and>
      try_extract_relationships ee txt = try_extract_relationships ee' txt)"

text \<open>
  What the loop over the sample comes to. One paragraph: when its extraction answers, the
  two storing methods run on its entities and relationships, one after the other, and the
  store is the one they leave; when it fails, the store is left alone. The lines printed
  for a list of paragraphs: one line for every paragraph whose extraction fails, in order.
\<close>

definition extract_step :: "entity_engine \<Rightarrow> source_writers \<Rightarrow> string \<Rightarrow> string \<Rightarrow> kb \<Rightarrow> kb" where
  "extract_step ee w sid p db =
     (case extract_with_relations ee p of
        Inr (entities, relationships) \<Rightarrow>
          snd (process_relationships_for_source w
                 (snd (process_entities_for_source w db sid entities)) sid relationships)
      | Inl e \<Rightarrow> db)"

definition failure_lines :: "entity_engine \<Rightarrow> string list \<Rightarrow> string list" where
  "failure_lines ee ps =
     List.map_filter
       (\<lambda>p. case extract_with_relations ee p of
               Inl e \<Rightarrow> Some (''Entity extraction failed: '' @ e)
             | Inr r \<Rightarrow> None)
       ps"

subsection \<open>Example: a document of two long paragraphs and a short one\<close>

definition para_long :: string where
  "para_long = ''John will review the budget for Project Alpha by Friday.''"

definition para_unread :: string where
  "para_unread = ''0x1f 0x8b 0x08 0x00 0x00 0x00 0x00 0x00 0x00 0x03 0xed 0xbd''"

definition doc_three_paragraphs :: string where
  "doc_three_paragraphs =
     para_unread @ [CHR 0x0A, CHR 0x0A] @ para_long @ [CHR 0x0A, CHR 0x0A] @ ''Thanks.''"

text \<open>A paragraph of exactly 50 bytes.\<close>

definition para_fifty :: string where
  "para_fifty = ''John will review the budget for Alpha by Friday ok''"

text \<open>
  Two extraction engines that find an entity in the second paragraph, fail on the first,
  and whose relationship extraction fails; they differ on the short paragraph only, where
  the first fails too.
\<close>

definition ee_partial :: entity_engine where
  "ee_partial =
     \<lparr>infer_entities =
        (\<lambda>t. if t = para_long then Inr [(''John'', ''person'')] else Inl ''Inference failed''),
      try_extract_relationships = (\<lambda>t entities. Inl ''unexpected relation label format'')\<rparr>"

definition ee_sampled :: entity_engine where
  "ee_sampled =
     \<lparr>infer_entities =
        (\<lambda>t. if t = para_long then Inr [(''John'', ''person'')]
             else if t = ''Thanks.'' then Inr [(''Thanks'', ''topic'')]
             else Inl ''Inference failed''),
      try_extract_relationships = (\<lambda>t entities. Inl ''unexpected relation label format'')\<rparr>"

text \<open>
  Writers that give the new source the id \<^verbatim>\<open>knowledge_source:s1\<close>, keep the content as
  one chunk, store every entity as a person, and fail to store relationships.
\<close>

definition writers_people :: source_writers where
  "writers_people =
     \<lparr>create_source = (\<lambda>db u ttl content stype tgs. Inr (''knowledge_source:s1'', db)),
      chunk_markdown = (\<lambda>content. [content]),
      process_entities_for_source =
        (\<lambda>db sid entities.
           (Inr (),
            db\<lparr>person := person db @
                  map (\<lambda>e. \<lparr>person_name = fst e, aliases = [], first_seen = 0, last_seen = 0\<rparr>)
                    entities\<rparr>)),
      process_relationships_for_source = (\<lambda>db sid rels. (Inl ''Failed to store relation'', db))\<rparr>"

section \<open>Meetings: accessors and deletion\<close>

subsection \<open>Per-meeting accessors\<close>

text \<open>
  Modelled from the spec: the bodies of \<^verbatim>\<open>get_meeting\<close> and of the per-meeting accessors
  are missing from the sources, which give their names and result types only. The spec
  scopes each of them strictly by \<open>meeting_id\<close>: an accessor returns the rows of its
  table that carry the meeting's id; the topics and the people of a meeting are those with
  a \<open>discussed_in\<close> or \<open>mentioned_in\<close> edge to it, its knowledge sources those linked
  to it in \<open>meeting_knowledge\<close> that the store still holds.
\<close>

definition select_rows :: "kb \<Rightarrow> 'a list \<Rightarrow> err + 'a list" where
  "select_rows db rows = (case db_status db of Some e \<Rightarrow> Inl e | None \<Rightarrow> Inr rows)"

definition get_meeting :: "kb \<Rightarrow> string \<Rightarrow> err + Meeting option" where
  "get_meeting db mid =
     (case db_status db of Some e \<Rightarrow> Inl e | None \<Rightarrow> Inr (map_of (meeting db) mid))"

definition get_meeting_segments :: "kb \<Rightarrow> string \<Rightarrow> err + TranscriptSegment list" where
  "get_meeting_segments db mid =
     select_rows db (filter (\<lambda>s. seg_meeting_id s = mid) (segment db))"

definition get_meeting_action_items :: "kb \<Rightarrow> string \<Rightarrow> err + ActionItem list" where
  "get_meeting_action_items db mid =
     select_rows db (filter (\<lambda>a. act_meeting_id a = mid) (action_item db))"

definition get_meeting_decisions :: "kb \<Rightarrow> string \<Rightarrow> err + Decision list" where
  "get_meeting_decisions db mid =
     select_rows db (filter (\<lambda>d. dec_meeting_id d = mid) (decision db))"

definition get_meeting_topics :: "kb \<Rightarrow> string \<Rightarrow> err + Topic list" where
  "get_meeting_topics db mid =
     select_rows db (filter (\<lambda>t. (topic_name t, mid) \<in> set (discussed_in db)) (topic db))"

definition get_meeting_people :: "kb \<Rightarrow> string \<Rightarrow> err + Person list" where
  "get_meeting_people db mid =
     select_rows db (filter (\<lambda>p. (person_name p, mid) \<in> set (mentioned_in db)) (person db))"

definition linked_source :: "kb \<Rightarrow> MeetingKnowledge \<Rightarrow> KnowledgeSource option" where
  "linked_source db l =
     (case knowledge_source db (id_part (mk_source_id l)) of
        Inr (Some src) \<Rightarrow> Some src
      | Inr None \<Rightarrow> None
      | Inl e \<Rightarrow> None)"

definition get_meeting_knowledge :: "kb \<Rightarrow> string \<Rightarrow> err + KnowledgeSource list" where
  "get_meeting_knowledge db mid =
     select_rows db
       (List.map_filter (linked_source db)
          (filter (\<lambda>l. mk_meeting_id l = mid) (meeting_knowledge db)))"

subsection \<open>\<^verbatim>\<open>delete_meeting\<close>\<close>

text \<open>
  Modelled from the spec: the body of \<^verbatim>\<open>delete_meeting\<close> is missing from the sources; the
  implementation log lists its statements, in this order, and the spec gives the rest. The
  cascade deletes, by meeting id, the segments, the action items, the decisions, the entity
  relations, the meeting-knowledge links and the two kinds of graph edges, then the meeting
  record. A missing meeting is an error (the id is the operation's primary target). Any
  statement can fail: \<open>fault\<close> gives the error of a statement that does, and the
  operation stops there with that error, the store as the statements before left it.
\<close>

datatype delete_step =
    DeleteSegments
  | DeleteActionItems
  | DeleteDecisions
  | DeleteEntityRelations
  | DeleteMeetingKnowledge
  | DeleteMentionedIn
  | DeleteDiscussedIn
  | DeleteMeetingRecord

fun apply_delete_step :: "string \<Rightarrow> delete_step \<Rightarrow> kb \<Rightarrow> kb" where
  "apply_delete_step mid DeleteSegments db =
     db\<lparr>segment := filter (\<lambda>s. seg_meeting_id s \<noteq> mid) (segment db)\<rparr>"
| "apply_delete_step mid DeleteActionItems db =
     db\<lparr>action_item := filter (\<lambda>a. act_meeting_id a \<noteq> mid) (action_item db)\<rparr>"
| "apply_delete_step mid DeleteDecisions db =
     db\<lparr>decision := filter (\<lambda>d. dec_meeting_id d \<noteq> mid) (decision db)\<rparr>"
| "apply_delete_step mid DeleteEntityRelations db =
     db\<lparr>entity_relation := filter (\<lambda>r. rel_meeting_id r \<noteq> Some mid) (entity_relation db)\<rparr>"
| "apply_delete_step mid DeleteMeetingKnowledge db =
     db\<lparr>meeting_knowledge := filter (\<lambda>l. mk_meeting_id l \<noteq> mid) (meeting_knowledge db)\<rparr>"
| "apply_delete_step mid DeleteMentionedIn db =
     db\<lparr>mentioned_in := filter (\<lambda>e. snd e \<noteq> mid) (mentioned_in db)\<rparr>"
| "apply_delete_step mid DeleteDiscussedIn db =
     db\<lparr>discussed_in := filter (\<lambda>e. snd e \<noteq> mid) (discussed_in db)\<rparr>"
| "apply_delete_step mid DeleteMeetingRecord db =
     db\<lparr>meeting := filter (\<lambda>row. fst row \<noteq> mid) (meeting db)\<rparr>"

definition delete_meeting_steps :: "delete_step list" where
  "delete_meeting_steps =
     [DeleteSegments, DeleteActionItems, DeleteDecisions, DeleteEntityRelations,
      DeleteMeetingKnowledge, DeleteMentionedIn, DeleteDiscussedIn, DeleteMeetingRecord]"

fun run_delete_steps ::
  "(delete_step \<Rightarrow> err option) \<Rightarrow> string \<Rightarrow> delete_step list \<Rightarrow> kb \<Rightarrow> (err + unit) \<times> kb" where
  "run_delete_steps fault mid [] db = (Inr (), db)"
| "run_delete_steps fault mid (st # rest) db =
     (case db_status db of
        Some e \<Rightarrow> (Inl e, db)
      | None \<Rightarrow>
          (case fault st of
             Some e \<Rightarrow> (Inl e, db)
           | None \<Rightarrow> run_delete_steps fault mid rest (apply_delete_step mid st db)))"

definition delete_meeting ::
  "(delete_step \<Rightarrow> err option) \<Rightarrow> kb \<Rightarrow> string \<Rightarrow> (err + unit) \<times> kb" where
  "delete_meeting fault db mid =
     (case get_meeting db mid of
        Inl e \<Rightarrow> (Inl e, db)
      | Inr None \<Rightarrow> (Inl ''Meeting not found'', db)
      | Inr (Some m) \<Rightarrow> run_delete_steps fault mid delete_meeting_steps db)"

text \<open>What a meeting owns in the store: the rows and edges that carry its id.\<close>

definition owns_nothing :: "kb \<Rightarrow> string \<Rightarrow> bool" where
  "owns_nothing db mid =
     (filter (\<lambda>s. seg_meeting_id s = mid) (segment db) = [] \<and>
      filter (\<lambda>a. act_meeting_id a = mid) (action_item db) = [] \<and>
      filter (\<lambda>d. dec_meeting_id d = mid) (decision db) = [] \<and>
      filter (\<lambda>r. rel_meeting_id r = Some mid) (entity_relation db) = [] \<and>
      filter (\<lambda>l. mk_meeting_id l = mid) (meeting_knowledge db) = [] \<and>
      filter (\<lambda>e. snd e = mid) (mentioned_in db) = [] \<and>
      filter (\<lambda>e. snd e = mid) (discussed_in db) = [])"

subsection \<open>Example: two meetings\<close>

definition kb_two_meetings :: kb where
  "kb_two_meetings =
     empty_kb\<lparr>
       meeting :=
         [(''m1'', \<lparr>meeting_title = ''Weekly Standup'', start_time = 1000, end_time = Some 31000,
                   participants = [''John''], summary = None\<rparr>),
          (''m2'', \<lparr>meeting_title = ''Planning'', start_time = 50000, end_time = None,
                   participants = [], summary = None\<rparr>)],
       segment :=
         [\<lparr>seg_meeting_id = ''m1'', speaker = ''Guest'', seg_text = ''We need to finalize the budget'',
           start_ms = 0, end_ms = 10000, seg_embedding = []\<rparr>,
          \<lparr>seg_meeting_id = ''m2'', speaker = ''You'', seg_text = ''Agreed'',
           start_ms = 0, end_ms = 4000, seg_embedding = []\<rparr>],
       action_item :=
         [\<lparr>act_meeting_id = ''m1'', act_text = ''Review the budget'', assignee = Some ''John'',
           deadline = Some ''Friday'', status = ''open'', act_created_at = 2000\<rparr>],
       decision :=
         [\<lparr>dec_meeting_id = ''m1'', dec_text = ''Approved Phase 2'', dec_participants = [],
           dec_created_at = 3000\<rparr>],
       person := [\<lparr>person_name = ''John'', aliases = [], first_seen = 1000, last_seen = 1000\<rparr>],
       topic := [\<lparr>topic_name = ''budget'', topic_embedding = [], mention_count = 1,
                 last_mentioned = 1000\<rparr>],
       entity_relation :=
         [\<lparr>source_entity = ''John'', rel_source_type = ''person'', relation = ''discussed'',
           target_entity = ''budget'', target_type = ''topic'', confidence = 1,
           rel_meeting_id = Some ''m1'', knowledge_source_id = None, rel_created_at = 1000\<rparr>],
       meeting_knowledge :=
         [\<lparr>mk_meeting_id = ''m1'', mk_source_id = ''knowledge_source:abc'', relevance_score = 1,
           assigned_by = ''user''\<rparr>],
       mentioned_in := [(''John'', ''m1'')],
       discussed_in := [(''budget'', ''m1'')]\<rparr>"

definition no_fault :: "delete_step \<Rightarrow> err option" where
  "no_fault st = None"

text \<open>The third statement of the cascade fails.\<close>

definition fault_at_decisions :: "delete_step \<Rightarrow> err option" where
  "fault_at_decisions st = (if st = DeleteDecisions then Some ''Connection reset'' else None)"

section \<open>Speaker relabelling\<close>

text \<open>
  Modelled from the spec: the body of \<^verbatim>\<open>relabel_speakers\<close> is missing from the sources,
  which give its signature
  \<^verbatim>\<open>relabel_speakers(&self, meeting_id: &str, diarization: &[(u64, u64, i32, String)])
  -> Result<usize, String>\<close> and say that it finds the \<^verbatim>\<open>Guest\<close> segments of the
  meeting and matches their midpoints to the diarization ranges. By the spec, the speaker
  of every generically labelled segment whose midpoint \<open>(start_ms + end_ms) / 2\<close> falls
  inside a range becomes that range's label, and a midpoint on a boundary resolves to the
  earlier range: a range holds its two end points, and of the ranges that hold a midpoint
  the one that starts first gives the label. The count returned is taken to be the number
  of segments so rewritten. Timestamps are milliseconds within a meeting, natural numbers
  here.
\<close>

type_synonym diarization_range = "nat \<times> nat \<times> int \<times> string"

definition range_start :: "diarization_range \<Rightarrow> nat" where
  "range_start r = fst r"

definition range_end :: "diarization_range \<Rightarrow> nat" where
  "range_end r = fst (snd r)"

definition range_label :: "diarization_range \<Rightarrow> string" where
  "range_label r = snd (snd (snd r))"

definition midpoint :: "TranscriptSegment \<Rightarrow> nat" where
  "midpoint s = (start_ms s + end_ms s) div 2"

definition in_range :: "nat \<Rightarrow> diarization_range \<Rightarrow> bool" where
  "in_range m r = (range_start r \<le> m \<and> m \<le> range_end r)"

fun earliest :: "diarization_range \<Rightarrow> diarization_range list \<Rightarrow> diarization_range" where
  "earliest r [] = r"
| "earliest r (x # xs) = earliest (if range_start x < range_start r then x else r) xs"

definition resolve_label :: "diarization_range list \<Rightarrow> nat \<Rightarrow> string option" where
  "resolve_label ranges m =
     (case filter (in_range m) ranges of
        [] \<Rightarrow> None
      | r # rs \<Rightarrow> Some (range_label (earliest r rs)))"

definition generic_label :: string where
  "generic_label = ''Guest''"

definition to_relabel :: "string \<Rightarrow> TranscriptSegment \<Rightarrow> bool" where
  "to_relabel mid s = (seg_meeting_id s = mid \<and> speaker s = generic_label)"

definition relabel_segment ::
  "string \<Rightarrow> diarization_range list \<Rightarrow> TranscriptSegment \<Rightarrow> TranscriptSegment" where
  "relabel_segment mid ranges s =
     (if to_relabel mid s
      then (case resolve_label ranges (midpoint s) of
              Some l \<Rightarrow> s\<lparr>speaker := l\<rparr>
            | None \<Rightarrow> s)
      else s)"

definition relabel_speakers ::
  "kb \<Rightarrow> string \<Rightarrow> diarization_range list \<Rightarrow> (err + nat) \<times> kb" where
  "relabel_speakers db mid ranges =
     (case db_status db of
        Some e \<Rightarrow> (Inl e, db)
      | None \<Rightarrow>
          (Inr (length (filter (\<lambda>s. to_relabel mid s \<and> resolve_label ranges (midpoint s) \<noteq> None)
                         (segment db))),
           db\<lparr>segment := map (relabel_segment mid ranges) (segment db)\<rparr>))"

text \<open>Ranges of one track: any two of them share at most an end point.\<close>

definition non_overlapping :: "diarization_range list \<Rightarrow> bool" where
  "non_overlapping ranges =
     list_all (\<lambda>r1. list_all (\<lambda>r2. r1 = r2 \<or> range_end r1 \<le> range_start r2
                                       \<or> range_end r2 \<le> range_start r1) ranges) ranges"

subsection \<open>Example: three guest segments, three speakers\<close>

definition guest_segment :: "nat \<Rightarrow> nat \<Rightarrow> TranscriptSegment" where
  "guest_segment a b =
     \<lparr>seg_meeting_id = ''m1'', speaker = ''Guest'', seg_text = ''...'',
      start_ms = a, end_ms = b, seg_embedding = []\<rparr>"

definition kb_three_guests :: kb where
  "kb_three_guests =
     empty_kb\<lparr>segment :=
       [guest_segment 4000 6000, guest_segment 14000 16000, guest_segment 24000 26000]\<rparr>"

definition diarization_three :: "diarization_range list" where
  "diarization_three =
     [(0, 10000, 0, ''Speaker 1''), (10000, 20000, 1, ''Speaker 2''),
      (20000, 30000, 2, ''Speaker 3'')]"

text \<open>
  A guest segment whose midpoint, 10 s, is the boundary of the first two ranges, and a
  segment of the microphone.
\<close>

definition host_segment :: "nat \<Rightarrow> nat \<Rightarrow> TranscriptSegment" where
  "host_segment a b =
     \<lparr>seg_meeting_id = ''m1'', speaker = ''You'', seg_text = ''...'',
      start_ms = a, end_ms = b, seg_embedding = []\<rparr>"

definition kb_guest_and_host :: kb where
  "kb_guest_and_host =
     empty_kb\<lparr>segment := [guest_segment 8000 12000, host_segment 0 4000]\<rparr>"

section \<open>Temporal parser\<close>

text \<open>
  Modelled from the spec: the body of \<^verbatim>\<open>parse_temporal\<close> is missing from the sources;
  the implementation log only lists the phrases it supports. By the spec it is a pure
  function \<open>parse(text, now)\<close> that gives an optional window \<open>[start, end)\<close>, by five
  rules applied in priority order, the first match winning. Times are milliseconds, as
  the timestamps of the store. A phrase "N weeks ago" is read as a run of decimal digits
  followed by \<^verbatim>\<open> weeks ago\<close>, and the first such phrase of the text counts; the fixed
  phrases match anywhere in the text.
\<close>

type_synonym window = "int \<times> int"

definition hour_ms :: int where
  "hour_ms = 3600000"

definition day_ms :: int where
  "day_ms = 24 * hour_ms"

definition is_digit :: "char \<Rightarrow> bool" where
  "is_digit c = (c \<in> set ''0123456789'')"

definition digit_value :: "char \<Rightarrow> nat" where
  "digit_value c = of_char c - 48"

definition digits_to_nat :: "string \<Rightarrow> nat" where
  "digits_to_nat ds = foldl (\<lambda>n c. 10 * n + digit_value c) 0 ds"

text \<open>\<^verbatim>\<open>str::contains\<close>: the pattern starts at some position of the text.\<close>

fun contains :: "string \<Rightarrow> string \<Rightarrow> bool" where
  "contains [] p = (p = [])"
| "contains (c # cs) p = (starts_with (c # cs) p \<or> contains cs p)"

text \<open>
  The number \<open>N\<close> of the first phrase "N unit" of a text; \<open>ds\<close> holds the digits read
  just before the position.
\<close>

fun find_count :: "string \<Rightarrow> string \<Rightarrow> string \<Rightarrow> nat option" where
  "find_count unit ds [] = None"
| "find_count unit ds (c # cs) =
     (if is_digit c
      then (if starts_with cs unit then Some (digits_to_nat (ds @ [c]))
            else find_count unit (ds @ [c]) cs)
      else find_count unit [] cs)"

definition centred :: "int \<Rightarrow> int \<Rightarrow> window" where
  "centred c half_width = (c - half_width, c + half_width)"

definition rule_weeks_ago :: "string \<Rightarrow> int \<Rightarrow> window option" where
  "rule_weeks_ago txt now =
     (case find_count '' weeks ago'' [] txt of
        Some n \<Rightarrow> Some (centred (now - 7 * int n * day_ms) (84 * hour_ms))
      | None \<Rightarrow> None)"

definition rule_days_ago :: "string \<Rightarrow> int \<Rightarrow> window option" where
  "rule_days_ago txt now =
     (case find_count '' days ago'' [] txt of
        Some n \<Rightarrow> Some (centred (now - int n * day_ms) (12 * hour_ms))
      | None \<Rightarrow> None)"

definition rule_last_week :: "string \<Rightarrow> int \<Rightarrow> window option" where
  "rule_last_week txt now =
     (if contains txt ''last week'' then Some (now - 14 * day_ms, now - 7 * day_ms) else None)"

definition rule_last_month :: "string \<Rightarrow> int \<Rightarrow> window option" where
  "rule_last_month txt now =
     (if contains txt ''last month'' then Some (now - 30 * day_ms, now) else None)"

definition rule_yesterday :: "string \<Rightarrow> int \<Rightarrow> window option" where
  "rule_yesterday txt now =
     (if contains txt ''yesterday'' then Some (now - 2 * day_ms, now - day_ms) else None)"

definition temporal_rules :: "(string \<Rightarrow> int \<Rightarrow> window option) list" where
  "temporal_rules =
     [rule_weeks_ago, rule_days_ago, rule_last_week, rule_last_month, rule_yesterday]"

fun first_match :: "(string \<Rightarrow> int \<Rightarrow> window option) list \<Rightarrow> string \<Rightarrow> int \<Rightarrow> window option" where
  "first_match [] txt now = None"
| "first_match (rule # rules) txt now =
     (case rule txt now of
        Some w \<Rightarrow> Some w
      | None \<Rightarrow> first_match rules txt now)"

definition parse_temporal :: "string \<Rightarrow> int \<Rightarrow> window option" where
  "parse_temporal txt now = first_match temporal_rules txt now"

text \<open>The phrases of a text, for the statement of the rules.\<close>

definition weeks_ago :: "string \<Rightarrow> nat option" where
  "weeks_ago txt = find_count '' weeks ago'' [] txt"

definition days_ago :: "string \<Rightarrow> nat option" where
  "days_ago txt = find_count '' days ago'' [] txt"

section \<open>Graph-RAG query\<close>

text \<open>
  Modelled from the spec: the body of \<^verbatim>\<open>graph_rag_query\<close> is missing from the sources;
  the implementation log gives its flow and a trace of a run, and \<^verbatim>\<open>ask\<close> shows that it
  returns a \<^verbatim>\<open>Result\<close>. By the spec the query extracts the entities of the question,
  parses its temporal window, gathers the graph sections independently and best-effort (a
  section that fails is empty and aborts nothing), the open action items and the recent
  decisions, runs the vector search, and assembles one bundle. A failing extraction and a
  failing vector search (the embedding, or the store) are the errors of the query.
  \<open>normalize_name\<close> is the name normalisation of the store, \<open>now\<close> the time of the query.
\<close>

record GraphContext =
  temporal_window :: "window option"
  query_entities :: "entity list"
  related_meetings :: "(string \<times> Meeting) list"
  related_people :: "Person list"
  related_topics :: "Topic list"
  open_action_items :: "ActionItem list"
  recent_decisions :: "Decision list"
  similar_chunks :: "KnowledgeSearchResult list"

definition best_effort :: "err + 'a list \<Rightarrow> 'a list" where
  "best_effort r = (case r of Inl e \<Rightarrow> [] | Inr rows \<Rightarrow> rows)"

definition in_window :: "window option \<Rightarrow> int \<Rightarrow> bool" where
  "in_window w t = (case w of None \<Rightarrow> True | Some (a, b) \<Rightarrow> a \<le> t \<and> t < b)"

text \<open>A meeting references a name in its title or in one of its segments.\<close>

definition meeting_mentions :: "kb \<Rightarrow> string \<times> Meeting \<Rightarrow> string \<Rightarrow> bool" where
  "meeting_mentions db row name =
     (contains (meeting_title (snd row)) name \<or>
      list_ex (\<lambda>s. seg_meeting_id s = fst row \<and> contains (seg_text s) name) (segment db))"

text \<open>
  The meetings that reference an extracted entity, within the window if there is one,
  newest first, at most five.
\<close>

definition related_meetings_of ::
  "kb \<Rightarrow> entity list \<Rightarrow> window option \<Rightarrow> (string \<times> Meeting) list" where
  "related_meetings_of db entities w =
     take 5
       (sort_key (\<lambda>row. - start_time (snd row))
          (filter (\<lambda>row. list_ex (meeting_mentions db row) (map fst entities)
                         \<and> in_window w (start_time (snd row)))
             (meeting db)))"

text \<open>
  The people that an entity relation links to an extracted entity or to a related meeting.
\<close>

definition relation_links ::
  "entity list \<Rightarrow> string list \<Rightarrow> string \<Rightarrow> EntityRelation \<Rightarrow> bool" where
  "relation_links entities meeting_ids name r =
     ((source_entity r = name \<and> target_entity r \<in> set (map fst entities)) \<or>
      (target_entity r = name \<and> source_entity r \<in> set (map fst entities)) \<or>
      ((source_entity r = name \<or> target_entity r = name) \<and>
       list_ex (\<lambda>mid. rel_meeting_id r = Some mid) meeting_ids))"

definition related_people_of ::
  "kb \<Rightarrow> entity list \<Rightarrow> (string \<times> Meeting) list \<Rightarrow> Person list" where
  "related_people_of db entities meetings =
     filter (\<lambda>p. list_ex (relation_links entities (map fst meetings) (person_name p))
                    (entity_relation db))
       (person db)"

text \<open>The topics whose normalised name is the normalised name of an extracted entity.\<close>

definition related_topics_of :: "(string \<Rightarrow> string) \<Rightarrow> kb \<Rightarrow> entity list \<Rightarrow> Topic list" where
  "related_topics_of normalize_name db entities =
     filter (\<lambda>t. normalize_name (topic_name t) \<in> set (map (\<lambda>e. normalize_name (fst e)) entities))
       (topic db)"

text \<open>A list of rows scoped to the related meetings when there are any.\<close>

definition scoped :: "(string \<times> Meeting) list \<Rightarrow> ('a \<Rightarrow> string) \<Rightarrow> 'a list \<Rightarrow> 'a list" where
  "scoped meetings owner rows =
     (if meetings = [] then rows else filter (\<lambda>x. owner x \<in> set (map fst meetings)) rows)"

definition open_action_items_of :: "kb \<Rightarrow> (string \<times> Meeting) list \<Rightarrow> ActionItem list" where
  "open_action_items_of db meetings =
     scoped meetings act_meeting_id
       (filter (\<lambda>a. status a \<noteq> ''done'' \<and> status a \<noteq> ''completed'') (action_item db))"

definition recent_decisions_of :: "kb \<Rightarrow> (string \<times> Meeting) list \<Rightarrow> nat \<Rightarrow> Decision list" where
  "recent_decisions_of db meetings n =
     take n (sort_key (\<lambda>d. - dec_created_at d) (scoped meetings dec_meeting_id (decision db)))"

definition graph_rag_query ::
  "embedding_engine \<Rightarrow> entity_engine \<Rightarrow> (string \<Rightarrow> string) \<Rightarrow> int \<Rightarrow> kb \<Rightarrow> string \<Rightarrow> nat
     \<Rightarrow> err + GraphContext" where
  "graph_rag_query eng ee normalize_name now db question limit =
     (case extract_with_relations ee question of
        Inl e \<Rightarrow> Inl e
      | Inr (entities, rels) \<Rightarrow>
          (let w = parse_temporal question now;
               meetings = best_effort (select_rows db (related_meetings_of db entities w));
               people = best_effort (select_rows db (related_people_of db entities meetings));
               topics = best_effort (select_rows db (related_topics_of normalize_name db entities));
               actions = best_effort (select_rows db (open_action_items_of db meetings));
               decisions = best_effort (select_rows db (recent_decisions_of db meetings limit))
           in (case search_knowledge eng db question limit None of
                 Inl e \<Rightarrow> Inl e
               | Inr hits \<Rightarrow>
                   Inr \<lparr>temporal_window = w, query_entities = entities,
                        related_meetings = meetings, related_people = people,
                        related_topics = topics, open_action_items = actions,
                        recent_decisions = decisions, similar_chunks = hits\<rparr>)))"

subsection \<open>The retrieval of \<^verbatim>\<open>ask\<close>\<close>

text \<open>
  \<^verbatim>\<open>match kb_ref.graph_rag_query(question, 5).await {
      Ok(graph_context) => { /* use Graph-RAG context */ }
      Err(e) => { println!("[Graph-RAG] Error: {}", e);
          let results = kb_ref.search_knowledge(question, 5, None).await?; ... } }\<close>
\<close>

datatype retrieved = GraphRag GraphContext | VectorOnly "KnowledgeSearchResult list"

definition ask_context ::
  "embedding_engine \<Rightarrow> entity_engine \<Rightarrow> (string \<Rightarrow> string) \<Rightarrow> int \<Rightarrow> kb \<Rightarrow> string
     \<Rightarrow> err + retrieved" where
  "ask_context eng ee normalize_name now db question =
     (case graph_rag_query eng ee normalize_name now db question 5 of
        Inr graph_context \<Rightarrow> Inr (GraphRag graph_context)
      | Inl e \<Rightarrow>
          (case search_knowledge eng db question 5 None of
             Inl e' \<Rightarrow> Inl e'
           | Inr results \<Rightarrow> Inr (VectorOnly results)))"

subsection \<open>Example: an engine that finds no entity\<close>

definition ee_nothing :: entity_engine where
  "ee_nothing =
     \<lparr>infer_entities = (\<lambda>t. Inr []),
      try_extract_relationships = (\<lambda>t entities. Inr [])\<rparr>"

chapter \<open>Properties\<close>

section \<open>Record ids and source lookup\<close>

lemma starts_with_append: "starts_with (p @ s) p"
  by (induction p) auto

lemma strip_prefix_append: "strip_prefix (p @ s) p = Some s"
  by (induction p) auto

lemma id_part_qualified: "id_part (source_prefix @ s) = s"
  by (simp add: id_part_def starts_with_append strip_prefix_append unwrap_or_def)

lemma id_part_bare: "\<not> starts_with s source_prefix \<Longrightarrow> id_part s = s"
  by (simp add: id_part_def)

section \<open>Orphan cleanup\<close>

lemma doomed_chunks_irrelevant:
  "knowledge_source db' = knowledge_source db \<Longrightarrow> doomed db' rows = doomed db rows"
  by (induction rows) (auto split: sum.splits option.splits)

lemma doomed_subset: "set (doomed db rows) \<subseteq> set rows"
  by (induction rows) (auto split: sum.splits option.splits)

lemma doomed_orphaned: "sid \<in> set (doomed db rows) \<Longrightarrow> orphaned db sid"
  by (induction rows) (auto simp: orphaned_def split: sum.splits option.splits)

lemma cleanup_loop_offline:
  "db_status db = Some e \<Longrightarrow>
   cleanup_loop db rows n = (if rows = [] then Inr n else Inl e, db)"
  by (cases rows) (auto simp: get_knowledge_source_def select_source_def)

lemma cleanup_loop_state:
  "db_status db = None \<Longrightarrow>
   snd (cleanup_loop db rows n) =
     db\<lparr>knowledge_chunk := filter (\<lambda>c. source_id c \<notin> set (doomed db rows)) (knowledge_chunk db)\<rparr>"
proof (induction rows arbitrary: db n)
  case Nil
  then show ?case by simp
next
  case (Cons sid rows)
  show ?case
  proof (cases "knowledge_source db (id_part sid)")
    case (Inl e)
    with Cons.prems show ?thesis
      by (simp add: get_knowledge_source_def select_source_def)
  next
    case (Inr v)
    show ?thesis
    proof (cases v)
      case (Some src)
      with Inr Cons show ?thesis
        by (simp add: get_knowledge_source_def select_source_def)
    next
      case None
      let ?db' = "db\<lparr>knowledge_chunk := filter (\<lambda>c. source_id c \<noteq> sid) (knowledge_chunk db)\<rparr>"
      have st: "db_status ?db' = None" using Cons.prems by simp
      have d: "doomed ?db' rows = doomed db rows"
        by (rule doomed_chunks_irrelevant) simp
      have "snd (cleanup_loop db (sid # rows) n) = snd (cleanup_loop ?db' rows (n + 1))"
        using None Inr Cons.prems
        by (simp add: get_knowledge_source_def select_source_def delete_chunks_of_def)
      also have "\<dots> = ?db'\<lparr>knowledge_chunk :=
          filter (\<lambda>c. source_id c \<notin> set (doomed ?db' rows)) (knowledge_chunk ?db')\<rparr>"
        by (rule Cons.IH [OF st])
      also have "\<dots> = db\<lparr>knowledge_chunk :=
          filter (\<lambda>c. source_id c \<notin> set (doomed db (sid # rows))) (knowledge_chunk db)\<rparr>"
        using None Inr by (simp add: d conj_commute)
      finally show ?thesis .
    qed
  qed
qed

lemma cleanup_loop_result:
  "db_status db = None \<Longrightarrow>
   (fst (cleanup_loop db rows n) = Inr k) =
     ((\<forall>sid \<in> set rows. \<not> isl (knowledge_source db (id_part sid))) \<and>
      k = n + length (doomed db rows))"
proof (induction rows arbitrary: db n)
  case Nil
  then show ?case by auto
next
  case (Cons sid rows)
  let ?db' = "db\<lparr>knowledge_chunk := filter (\<lambda>c. source_id c \<noteq> sid) (knowledge_chunk db)\<rparr>"
  have st: "db_status ?db' = None" using Cons.prems by simp
  have d: "doomed ?db' rows = doomed db rows"
    by (rule doomed_chunks_irrelevant) simp
  show ?case
    using Cons.prems Cons.IH [OF Cons.prems] Cons.IH [OF st] d
    by (auto simp: get_knowledge_source_def select_source_def delete_chunks_of_def
        split: sum.splits option.splits)
qed

lemma doomed_no_errors:
  "\<forall>sid \<in> set rows. \<not> isl (knowledge_source db (id_part sid)) \<Longrightarrow>
   doomed db rows = filter (orphaned db) rows"
  by (induction rows) (auto simp: orphaned_def split: sum.splits option.splits)

lemma doomed_second_pass:
  "distinct rows \<Longrightarrow> doomed db (filter (\<lambda>s. s \<notin> set (doomed db rows)) rows) = []"
proof (induction rows)
  case Nil
  then show ?case by simp
next
  case (Cons sid rows)
  have sub: "set (doomed db rows) \<subseteq> set rows" by (rule doomed_subset)
  have notin: "sid \<notin> set (doomed db rows)" using Cons.prems sub by auto
  have eq: "filter (\<lambda>s. s \<noteq> sid \<and> s \<notin> set (doomed db rows)) rows =
            filter (\<lambda>s. s \<notin> set (doomed db rows)) rows"
    using Cons.prems by (auto intro: filter_cong)
  show ?case
    using Cons notin eq by (auto split: sum.splits option.splits)
qed

text \<open>
  Claim C3, as the code has it. When \<^verbatim>\<open>cleanup_orphaned_chunks\<close> returns \<open>Ok(n)\<close>, the
  chunks left are exactly those whose \<open>source_id\<close>, bare or fully qualified, names a
  source of the store; the sources and the connection are as before; and \<open>n\<close> is the
  number of distinct orphaned \<open>source_id\<close> values (one for every group of the
  \<^verbatim>\<open>GROUP BY\<close> query whose chunks were deleted), not the number of chunks.
\<close>

theorem cleanup_orphaned_chunks_groups:
  assumes "cleanup_orphaned_chunks db = (Inr n, db')"
  shows "knowledge_chunk db' = filter (\<lambda>c. \<not> orphaned db (source_id c)) (knowledge_chunk db)
       \<and> n = card {sid \<in> source_id ` set (knowledge_chunk db). orphaned db sid}
       \<and> knowledge_source db' = knowledge_source db
       \<and> db_status db' = db_status db"
proof -
  let ?rows = "remdups (map source_id (knowledge_chunk db))"
  have st: "db_status db = None"
    using assms by (auto simp: cleanup_orphaned_chunks_def select_chunk_source_ids_def split: option.splits)
  then have run: "cleanup_loop db ?rows 0 = (Inr n, db')"
    using assms by (simp add: cleanup_orphaned_chunks_def select_chunk_source_ids_def)
  from run have "fst (cleanup_loop db ?rows 0) = Inr n" by simp
  then have ok: "\<forall>sid \<in> set ?rows. \<not> isl (knowledge_source db (id_part sid))"
    and n: "n = length (doomed db ?rows)"
    using cleanup_loop_result [OF st, of ?rows 0 n] by auto
  have d: "doomed db ?rows = filter (orphaned db) ?rows"
    by (rule doomed_no_errors [OF ok])
  from run have "db' = snd (cleanup_loop db ?rows 0)" by simp
  then have db': "db' = db\<lparr>knowledge_chunk :=
      filter (\<lambda>c. source_id c \<notin> set (doomed db ?rows)) (knowledge_chunk db)\<rparr>"
    by (simp add: cleanup_loop_state [OF st])
  have "knowledge_chunk db' = filter (\<lambda>c. \<not> orphaned db (source_id c)) (knowledge_chunk db)"
    unfolding db' d by (auto intro: filter_cong)
  moreover have "distinct (filter (orphaned db) ?rows)" by simp
  then have "card (set (filter (orphaned db) ?rows)) = length (filter (orphaned db) ?rows)"
    by (rule distinct_card)
  moreover have "set (filter (orphaned db) ?rows) =
      {sid \<in> source_id ` set (knowledge_chunk db). orphaned db sid}"
    by auto
  ultimately have "n = card {sid \<in> source_id ` set (knowledge_chunk db). orphaned db sid}"
    unfolding n d by simp
  moreover note \<open>knowledge_chunk db' = filter (\<lambda>c. \<not> orphaned db (source_id c)) (knowledge_chunk db)\<close>
  ultimately show ?thesis by (simp add: db')
qed

text \<open>The theorem at the store with two chunks of one deleted source.\<close>

theorem cleanup_orphaned_chunks_groups_witness:
  "cleanup_orphaned_chunks kb_two_orphans = (Inr 1, kb_two_orphans\<lparr>knowledge_chunk := []\<rparr>)
   \<and> knowledge_chunk (kb_two_orphans\<lparr>knowledge_chunk := []\<rparr>) =
       filter (\<lambda>c. \<not> orphaned kb_two_orphans (source_id c)) (knowledge_chunk kb_two_orphans)
   \<and> (1::nat) = card {sid \<in> source_id ` set (knowledge_chunk kb_two_orphans). orphaned kb_two_orphans sid}"
proof -
  have run: "cleanup_orphaned_chunks kb_two_orphans = (Inr 1, kb_two_orphans\<lparr>knowledge_chunk := []\<rparr>)"
    by (simp add: cleanup_orphaned_chunks_def select_chunk_source_ids_def kb_two_orphans_def empty_kb_def
        get_knowledge_source_def select_source_def delete_chunks_of_def)
  from cleanup_orphaned_chunks_groups [OF run] run show ?thesis by simp
qed

text \<open>
  Claim C3 as stated fails there: the run deletes two chunks and returns 1.
\<close>

theorem cleanup_count_counterexample:
  "fst (cleanup_orphaned_chunks kb_two_orphans) = Inr 1
   \<and> length (knowledge_chunk kb_two_orphans)
       - length (knowledge_chunk (snd (cleanup_orphaned_chunks kb_two_orphans))) = 2"
  by (simp add: cleanup_orphaned_chunks_def select_chunk_source_ids_def kb_two_orphans_def empty_kb_def
        get_knowledge_source_def select_source_def delete_chunks_of_def)

lemma cleanup_offline:
  "db_status db = Some e \<Longrightarrow> cleanup_orphaned_chunks db = (Inl e, db)"
  by (simp add: cleanup_orphaned_chunks_def select_chunk_source_ids_def)

lemma cleanup_online:
  "db_status db = None \<Longrightarrow>
   cleanup_orphaned_chunks db =
     cleanup_loop db (remdups (map source_id (knowledge_chunk db))) 0"
  by (simp add: cleanup_orphaned_chunks_def select_chunk_source_ids_def)

lemma rows_after_cleanup:
  "remdups (map source_id (filter (\<lambda>c. source_id c \<notin> D) cs)) =
   filter (\<lambda>s. s \<notin> D) (remdups (map source_id cs))"
  by (induction cs) auto

text \<open>
  Claim C4. For every store, a second run of \<^verbatim>\<open>cleanup_orphaned_chunks\<close> right after a
  first one leaves the store as the first run left it, so it deletes no further row; and
  when the first run returned \<open>Ok\<close>, the second returns \<open>Ok(0)\<close>. The first part holds
  also for a first run that stopped at a lookup error.
\<close>

theorem cleanup_orphaned_chunks_idempotent:
  "snd (cleanup_orphaned_chunks (snd (cleanup_orphaned_chunks db))) =
     snd (cleanup_orphaned_chunks db)
   \<and> (\<forall>n. fst (cleanup_orphaned_chunks db) = Inr n \<longrightarrow>
          fst (cleanup_orphaned_chunks (snd (cleanup_orphaned_chunks db))) = Inr 0)"
proof (cases "db_status db")
  case (Some e)
  then show ?thesis by (simp add: cleanup_offline)
next
  case None
  let ?rows = "remdups (map source_id (knowledge_chunk db))"
  let ?D = "set (doomed db ?rows)"
  let ?db1 = "db\<lparr>knowledge_chunk := filter (\<lambda>c. source_id c \<notin> ?D) (knowledge_chunk db)\<rparr>"
  let ?rows1 = "filter (\<lambda>s. s \<notin> ?D) ?rows"
  have first: "snd (cleanup_orphaned_chunks db) = ?db1"
    by (simp add: cleanup_online [OF None] cleanup_loop_state [OF None])
  have st1: "db_status ?db1 = None" using None by simp
  have rows1: "remdups (map source_id (knowledge_chunk ?db1)) = ?rows1"
    by (simp add: rows_after_cleanup)
  have d1: "doomed ?db1 ?rows1 = []"
  proof -
    have "doomed ?db1 ?rows1 = doomed db ?rows1"
      by (rule doomed_chunks_irrelevant) simp
    also have "\<dots> = []" by (rule doomed_second_pass) simp
    finally show ?thesis .
  qed
  have second: "cleanup_orphaned_chunks ?db1 = cleanup_loop ?db1 ?rows1 0"
    using cleanup_online [OF st1] rows1 by simp
  have "snd (cleanup_loop ?db1 ?rows1 0) = ?db1"
    by (simp add: cleanup_loop_state [OF st1] d1)
  then have state: "snd (cleanup_orphaned_chunks (snd (cleanup_orphaned_chunks db))) =
      snd (cleanup_orphaned_chunks db)"
    by (simp add: first second)
  have count: "fst (cleanup_orphaned_chunks (snd (cleanup_orphaned_chunks db))) = Inr 0"
    if ok: "fst (cleanup_orphaned_chunks db) = Inr n" for n
  proof -
    from ok have "fst (cleanup_loop db ?rows 0) = Inr n"
      by (simp add: cleanup_online [OF None])
    then have noerr: "\<forall>sid \<in> set ?rows. \<not> isl (knowledge_source db (id_part sid))"
      using cleanup_loop_result [OF None, of ?rows 0 n] by simp
    then have "\<forall>sid \<in> set ?rows1. \<not> isl (knowledge_source ?db1 (id_part sid))"
      by auto
    then have "fst (cleanup_loop ?db1 ?rows1 0) = Inr 0"
      using cleanup_loop_result [OF st1, of ?rows1 0 0] d1 by simp
    then show ?thesis by (simp add: first second)
  qed
  from state count show ?thesis by blast
qed

text \<open>The theorem at the store with two chunks of one deleted source.\<close>

theorem cleanup_orphaned_chunks_idempotent_witness:
  "fst (cleanup_orphaned_chunks kb_two_orphans) = Inr 1
   \<and> cleanup_orphaned_chunks (snd (cleanup_orphaned_chunks kb_two_orphans)) =
       (Inr 0, kb_two_orphans\<lparr>knowledge_chunk := []\<rparr>)"
proof -
  have run: "cleanup_orphaned_chunks kb_two_orphans = (Inr 1, kb_two_orphans\<lparr>knowledge_chunk := []\<rparr>)"
    by (simp add: cleanup_orphaned_chunks_def select_chunk_source_ids_def kb_two_orphans_def empty_kb_def
        get_knowledge_source_def select_source_def delete_chunks_of_def)
  from cleanup_orphaned_chunks_idempotent [of kb_two_orphans] run
  show ?thesis by (simp add: prod_eq_iff)
qed

text \<open>
  Claim C10, as the code has it. \<^verbatim>\<open>get_knowledge_source\<close> strips one leading
  \<^verbatim>\<open>knowledge_source:\<close>, so the fully qualified spelling of \<open>s\<close> is looked up under \<open>s\<close>;
  for every \<open>s\<close> that does not itself start with \<^verbatim>\<open>knowledge_source:\<close> the bare and the
  fully qualified spelling give the same result.
\<close>

theorem get_knowledge_source_both_spellings:
  "get_knowledge_source db (source_prefix @ s) = select_source db s
   \<and> (\<not> starts_with s source_prefix \<longrightarrow>
        get_knowledge_source db (source_prefix @ s) = get_knowledge_source db s)"
  by (simp add: get_knowledge_source_def id_part_qualified id_part_bare)

text \<open>The theorem at the id \<^verbatim>\<open>abc\<close> of a stored source.\<close>

theorem get_knowledge_source_both_spellings_witness:
  "\<not> starts_with ''abc'' source_prefix
   \<and> get_knowledge_source kb_one_source (source_prefix @ ''abc'') =
       get_knowledge_source kb_one_source ''abc''
   \<and> isl (get_knowledge_source kb_one_source ''abc'') = False
   \<and> get_knowledge_source kb_one_source ''abc'' \<noteq> Inr None"
proof -
  have bare: "\<not> starts_with ''abc'' source_prefix" by (simp add: source_prefix_def)
  have found: "get_knowledge_source kb_one_source ''abc'' \<noteq> Inr None"
    "isl (get_knowledge_source kb_one_source ''abc'') = False"
    by (simp_all add: get_knowledge_source_def select_source_def id_part_def source_prefix_def
        kb_one_source_def empty_kb_def)
  from get_knowledge_source_both_spellings [of kb_one_source "''abc''"] bare found
  show ?thesis by blast
qed

text \<open>
  Claim C10 as stated, for every string \<open>s\<close>, fails at \<open>s =\<close> \<^verbatim>\<open>knowledge_source:abc\<close>: as
  given it resolves to the source \<^verbatim>\<open>abc\<close>, with the prefix once more it is looked up under
  \<^verbatim>\<open>knowledge_source:abc\<close>, where there is no row.
\<close>

theorem get_knowledge_source_spellings_counterexample:
  "get_knowledge_source kb_one_source ''knowledge_source:abc'' \<noteq> Inr None
   \<and> get_knowledge_source kb_one_source (''knowledge_source:'' @ ''knowledge_source:abc'') = Inr None"
  by (simp add: get_knowledge_source_def select_source_def id_part_def source_prefix_def
        kb_one_source_def empty_kb_def unwrap_or_def)

section \<open>Vector search\<close>

lemma chunk_resolve_hit: "chunk (resolve_hit db hit) = fst hit"
  by (simp add: resolve_hit_def)

lemma resolve_hit_fallback:
  "resolution_fails db (source_id (fst hit)) \<Longrightarrow>
   source_title (resolve_hit db hit) = ''Source '' @ source_id (fst hit) \<and>
   source_url (resolve_hit db hit) = []"
  by (auto simp: resolve_hit_def resolve_source_def resolution_fails_def
      split: sum.splits option.splits)

lemma search_knowledge_runs:
  "embed eng query = Inr qe \<Longrightarrow> db_status db = None \<Longrightarrow>
   search_knowledge eng db query limit tgs =
     Inr (map (resolve_hit db)
           (take limit
             (sort_key (\<lambda>row. - snd row)
               (map (\<lambda>c. (c, cosine eng (embedding c) qe))
                 (filter (tag_filter tgs) (knowledge_chunk db))))))"
  by (simp add: search_knowledge_def select_similar_chunks_def)

lemma search_knowledge_errors:
  "isl (search_knowledge eng db query limit tgs) =
     (isl (embed eng query) \<or> db_status db \<noteq> None)"
  by (auto simp: search_knowledge_def select_similar_chunks_def split: sum.splits option.splits)

lemma search_knowledge_count:
  "embed eng query = Inr qe \<Longrightarrow> db_status db = None \<Longrightarrow>
   \<exists>hits. search_knowledge eng db query limit None = Inr hits
      \<and> length hits = min limit (length (knowledge_chunk db))"
  by (simp add: search_knowledge_runs tag_filter_def min.commute)

lemma resolve_hit_found:
  "get_knowledge_source db (source_id (fst hit)) = Inr (Some src) \<Longrightarrow>
   source_title (resolve_hit db hit) = title src \<and> source_url (resolve_hit db hit) = url src"
  by (simp add: resolve_hit_def resolve_source_def)

lemma search_knowledge_hits:
  assumes "search_knowledge eng db query limit tgs = Inr results"
  shows "\<exists>qe hits. embed eng query = Inr qe \<and> db_status db = None
          \<and> select_similar_chunks eng db qe limit tgs = Inr hits
          \<and> results = map (resolve_hit db) hits
          \<and> length hits = min limit (length (filter (tag_filter tgs) (knowledge_chunk db)))"
  using assms
  by (auto simp: search_knowledge_def select_similar_chunks_def split: sum.splits option.splits)

lemma select_similar_chunks_sources:
  "select_similar_chunks eng (db\<lparr>knowledge_source := ks\<rparr>) qe limit tgs =
   select_similar_chunks eng db qe limit tgs"
  by (simp add: select_similar_chunks_def split: option.splits)

text \<open>
  Claim C2. For every query text, limit and store: when the query is embedded and the
  store answers, \<^verbatim>\<open>search_knowledge\<close> returns \<open>Ok\<close>, whatever the source lookups give,
  with one result for every hit of the query, in order, with its chunk and similarity
  (without tags, the smaller of \<open>limit\<close> and the number of chunks); it returns an error
  only when the embedding fails or the store does not answer. A result list has at most
  \<open>limit\<close> results; a hit whose source lookup gives no row or an error carries the title
  \<^verbatim>\<open>Source {id}\<close> and an empty url, a hit whose source is found carries its title and url;
  and over any other table of sources the search returns the same chunks with the same
  similarities, so no lookup failure drops a hit or changes the count.
\<close>

theorem search_knowledge_limit_and_fallback:
  "(\<forall>qe. embed eng query = Inr qe \<and> db_status db = None \<longrightarrow>
       (\<exists>results hits. search_knowledge eng db query limit tgs = Inr results
          \<and> select_similar_chunks eng db qe limit tgs = Inr hits
          \<and> map chunk results = map fst hits
          \<and> map similarity results = map snd hits
          \<and> (tgs = None \<longrightarrow> length results = min limit (length (knowledge_chunk db)))))
   \<and> isl (search_knowledge eng db query limit tgs) =
       (isl (embed eng query) \<or> db_status db \<noteq> None)
   \<and> (\<forall>results. search_knowledge eng db query limit tgs = Inr results \<longrightarrow>
         length results \<le> limit
       \<and> (\<forall>r \<in> set results. resolution_fails db (source_id (chunk r)) \<longrightarrow>
              source_title r = ''Source '' @ source_id (chunk r) \<and> source_url r = [])
       \<and> (\<forall>r \<in> set results. \<forall>src.
              get_knowledge_source db (source_id (chunk r)) = Inr (Some src) \<longrightarrow>
              source_title r = title src \<and> source_url r = url src)
       \<and> (\<forall>ks. \<exists>results'.
              search_knowledge eng (db\<lparr>knowledge_source := ks\<rparr>) query limit tgs = Inr results'
            \<and> map chunk results' = map chunk results
            \<and> map similarity results' = map similarity results))"
proof -
  have runs: "\<exists>results hits. search_knowledge eng db query limit tgs = Inr results
          \<and> select_similar_chunks eng db qe limit tgs = Inr hits
          \<and> map chunk results = map fst hits
          \<and> map similarity results = map snd hits
          \<and> (tgs = None \<longrightarrow> length results = min limit (length (knowledge_chunk db)))"
    if "embed eng query = Inr qe" "db_status db = None" for qe
    using that
    by (simp add: search_knowledge_def select_similar_chunks_def resolve_hit_def comp_def
        tag_filter_def min.commute)
  have each: "length results \<le> limit
       \<and> (\<forall>r \<in> set results. resolution_fails db (source_id (chunk r)) \<longrightarrow>
              source_title r = ''Source '' @ source_id (chunk r) \<and> source_url r = [])
       \<and> (\<forall>r \<in> set results. \<forall>src.
              get_knowledge_source db (source_id (chunk r)) = Inr (Some src) \<longrightarrow>
              source_title r = title src \<and> source_url r = url src)
       \<and> (\<forall>ks. \<exists>results'.
              search_knowledge eng (db\<lparr>knowledge_source := ks\<rparr>) query limit tgs = Inr results'
            \<and> map chunk results' = map chunk results
            \<and> map similarity results' = map similarity results)"
    if ok: "search_knowledge eng db query limit tgs = Inr results" for results
  proof -
    from search_knowledge_hits [OF ok] obtain qe hits where qe: "embed eng query = Inr qe"
      and st: "db_status db = None"
      and hits: "select_similar_chunks eng db qe limit tgs = Inr hits"
      and res: "results = map (resolve_hit db) hits"
      and len: "length hits = min limit (length (filter (tag_filter tgs) (knowledge_chunk db)))"
      by blast
    have bound: "length results \<le> limit" using res len by simp
    have fb: "source_title r = ''Source '' @ source_id (chunk r) \<and> source_url r = []"
      if "r \<in> set results" "resolution_fails db (source_id (chunk r))" for r
    proof -
      from that(1) obtain hit where r: "r = resolve_hit db hit" using res by auto
      from that(2) show ?thesis
        unfolding r chunk_resolve_hit by (rule resolve_hit_fallback)
    qed
    have found: "source_title r = title src \<and> source_url r = url src"
      if "r \<in> set results" "get_knowledge_source db (source_id (chunk r)) = Inr (Some src)"
      for r src
    proof -
      from that(1) obtain hit where r: "r = resolve_hit db hit" using res by auto
      from that(2) show ?thesis
        unfolding r chunk_resolve_hit by (rule resolve_hit_found)
    qed
    have other: "\<exists>results'.
              search_knowledge eng (db\<lparr>knowledge_source := ks\<rparr>) query limit tgs = Inr results'
            \<and> map chunk results' = map chunk results
            \<and> map similarity results' = map similarity results" for ks
    proof -
      have "search_knowledge eng (db\<lparr>knowledge_source := ks\<rparr>) query limit tgs =
          Inr (map (resolve_hit (db\<lparr>knowledge_source := ks\<rparr>)) hits)"
        using qe hits by (simp add: search_knowledge_def select_similar_chunks_sources)
      moreover have "map chunk (map (resolve_hit (db\<lparr>knowledge_source := ks\<rparr>)) hits) =
          map chunk results"
        "map similarity (map (resolve_hit (db\<lparr>knowledge_source := ks\<rparr>)) hits) =
          map similarity results"
        by (simp_all add: res resolve_hit_def comp_def)
      ultimately show ?thesis by blast
    qed
    from bound fb found other show ?thesis by blast
  qed
  from runs each search_knowledge_errors [of eng db query limit tgs] show ?thesis by blast
qed

text \<open>
  The theorem at a store of three chunks. With limit 3 the hit without a source and the
  hit whose lookup fails are both kept under their fallback titles; with limit 2 there
  are two results.
\<close>

theorem search_knowledge_limit_and_fallback_witness:
  "embed eng_first_component ''q'' = Inr [1]
   \<and> db_status kb_three_chunks = None
   \<and> length (knowledge_chunk kb_three_chunks) = 3
   \<and> get_knowledge_source kb_three_chunks ''knowledge_source:gone'' = Inr None
   \<and> get_knowledge_source kb_three_chunks ''knowledge_source:bad'' = Inl ''Serialization''
   \<and> search_knowledge eng_first_component kb_three_chunks ''q'' 3 None =
     Inr [\<lparr>chunk = \<lparr>source_id = ''knowledge_source:gone'', chunk_text = ''b'',
                     chunk_index = 0, embedding = [9/10]\<rparr>,
            source_title = ''Source knowledge_source:gone'', source_url = [],
            similarity = 9/10\<rparr>,
          \<lparr>chunk = \<lparr>source_id = ''knowledge_source:abc'', chunk_text = ''a'',
                     chunk_index = 0, embedding = [8/10]\<rparr>,
            source_title = ''Example'', source_url = ''https://example.org'',
            similarity = 8/10\<rparr>,
          \<lparr>chunk = \<lparr>source_id = ''knowledge_source:bad'', chunk_text = ''c'',
                     chunk_index = 0, embedding = [7/10]\<rparr>,
            source_title = ''Source knowledge_source:bad'', source_url = [],
            similarity = 7/10\<rparr>]
   \<and> (\<exists>results. search_knowledge eng_first_component kb_three_chunks ''q'' 2 None = Inr results
          \<and> length results = 2)"
proof -
  have e: "embed eng_first_component ''q'' = Inr [1]"
    by (simp add: eng_first_component_def)
  have st: "db_status kb_three_chunks = None"
    by (simp add: kb_three_chunks_def empty_kb_def)
  have n: "length (knowledge_chunk kb_three_chunks) = 3"
    by (simp add: kb_three_chunks_def empty_kb_def)
  have look: "get_knowledge_source kb_three_chunks ''knowledge_source:gone'' = Inr None"
    "get_knowledge_source kb_three_chunks ''knowledge_source:bad'' = Inl ''Serialization''"
    by (simp_all add: get_knowledge_source_def select_source_def id_part_def
        source_prefix_def unwrap_or_def kb_three_chunks_def empty_kb_def)
  have run: "search_knowledge eng_first_component kb_three_chunks ''q'' 3 None =
     Inr [\<lparr>chunk = \<lparr>source_id = ''knowledge_source:gone'', chunk_text = ''b'',
                     chunk_index = 0, embedding = [9/10]\<rparr>,
            source_title = ''Source knowledge_source:gone'', source_url = [],
            similarity = 9/10\<rparr>,
          \<lparr>chunk = \<lparr>source_id = ''knowledge_source:abc'', chunk_text = ''a'',
                     chunk_index = 0, embedding = [8/10]\<rparr>,
            source_title = ''Example'', source_url = ''https://example.org'',
            similarity = 8/10\<rparr>,
          \<lparr>chunk = \<lparr>source_id = ''knowledge_source:bad'', chunk_text = ''c'',
                     chunk_index = 0, embedding = [7/10]\<rparr>,
            source_title = ''Source knowledge_source:bad'', source_url = [],
            similarity = 7/10\<rparr>]"
    by (simp add: search_knowledge_def select_similar_chunks_def eng_first_component_def
        kb_three_chunks_def empty_kb_def tag_filter_def resolve_hit_def resolve_source_def
        get_knowledge_source_def select_source_def id_part_def source_prefix_def unwrap_or_def)
  from search_knowledge_limit_and_fallback [of eng_first_component "''q''" kb_three_chunks 2 None]
    e st n
  have two: "\<exists>results. search_knowledge eng_first_component kb_three_chunks ''q'' 2 None = Inr results
          \<and> length results = 2"
    by auto
  from e st n look run two show ?thesis by blast
qed

section \<open>Ingestion of a knowledge source\<close>

lemma extract_with_relations_agree:
  "engines_agree_on ee ee' txt \<Longrightarrow> extract_with_relations ee txt = extract_with_relations ee' txt"
  by (auto simp: extract_with_relations_def engines_agree_on_def split: sum.splits)

lemma extract_sample_agree:
  "\<forall>p \<in> set ps. engines_agree_on ee ee' p \<Longrightarrow>
   extract_sample ee w sid ps st = extract_sample ee' w sid ps st"
proof (induction ps arbitrary: st)
  case Nil
  then show ?case by simp
next
  case (Cons p ps)
  then have "extract_with_relations ee p = extract_with_relations ee' p"
    by (simp add: extract_with_relations_agree)
  with Cons show ?case by (auto split: sum.splits prod.splits simp: Let_def)
qed

lemma add_knowledge_source_result:
  "fst (add_knowledge_source eng ee w db u ttl content stype tgs) =
     (case create_source w db u ttl content stype tgs of
        Inl e \<Rightarrow> Inl e
      | Inr (sid, db1) \<Rightarrow>
          (case fst (store_chunks eng db1 sid (enumerate 0 (chunk_markdown w content))) of
             Inl e \<Rightarrow> Inl e
           | Inr u \<Rightarrow> Inr sid))"
  by (auto simp: add_knowledge_source_def split: sum.splits prod.splits)

lemma text_chunks_bounds:
  "length (text_chunks content) \<le> 20
   \<and> (\<forall>p \<in> set (text_chunks content). 50 < length p \<and> p \<in> set (split_paragraphs content))"
proof -
  have "set (text_chunks content) \<subseteq> set (filter (\<lambda>s. length s > 50) (split_paragraphs content))"
    unfolding text_chunks_def by (rule set_take_subset)
  then show ?thesis by (auto simp: text_chunks_def)
qed

lemma extract_with_relations_contained:
  "infer_entities ee txt = Inr entities \<Longrightarrow>
   \<exists>rels. extract_with_relations ee txt = Inr (entities, rels)
        \<and> (isl (try_extract_relationships ee txt entities) \<longrightarrow> rels = [])"
  by (auto simp: extract_with_relations_def split: sum.splits)

lemma extract_sample_steps:
  "extract_sample ee w sid ps st =
     (fold (extract_step ee w sid) ps (fst st), snd st @ failure_lines ee ps)"
proof (induction ps arbitrary: st)
  case Nil
  then show ?case by (simp add: failure_lines_def)
next
  case (Cons p ps)
  show ?case
  proof (cases "extract_with_relations ee p")
    case (Inl e)
    then show ?thesis
      by (simp add: Cons.IH extract_step_def failure_lines_def)
  next
    case (Inr r)
    then show ?thesis
      by (cases r) (simp add: Cons.IH extract_step_def failure_lines_def Let_def)
  qed
qed

lemma add_knowledge_source_steps:
  "create_source w db u ttl content stype tgs = Inr (sid, db1) \<Longrightarrow>
   store_chunks eng db1 sid (enumerate 0 (chunk_markdown w content)) = (Inr (), db2) \<Longrightarrow>
   add_knowledge_source eng ee w db u ttl content stype tgs =
     (Inr sid, fold (extract_step ee w sid) (text_chunks content) db2,
      failure_lines ee (text_chunks content))"
  by (simp add: add_knowledge_source_def extract_sample_steps)

lemma extract_step_cases:
  "extract_with_relations ee p = Inl e \<Longrightarrow>
   extract_step ee w sid p db = db \<and> failure_lines ee [p] = [''Entity extraction failed: '' @ e]"
  "extract_with_relations ee p = Inr (entities, rels) \<Longrightarrow>
   extract_step ee w sid p db =
     snd (process_relationships_for_source w
            (snd (process_entities_for_source w db sid entities)) sid rels)
   \<and> failure_lines ee [p] = []"
  by (simp_all add: extract_step_def failure_lines_def)

text \<open>
  Claim C9, as the code has it. For every content, the extraction of
  \<^verbatim>\<open>add_knowledge_source\<close> runs over the first 20 paragraphs (pieces between blank
  lines) of more than 50 bytes, each in turn, and over nothing else. Once the source row
  and the chunks are stored, the ingestion returns \<open>Ok\<close> with the id of the source;
  the store is the one left by the steps of the sampled paragraphs, in order, and the
  lines printed are those of the sampled paragraphs whose extraction fails. A paragraph
  whose extraction fails is printed and leaves the store alone, and the loop goes on; one
  whose extraction answers has its entities and its relationships handed to the two
  storing methods, whose results are dropped. Two extraction engines that answer alike on
  the sampled paragraphs give the same result, store and printed lines; the result of
  the ingestion is the same for any two extraction engines; and where the entities of a
  text are found, a failure of the relationship extraction gives the entities with no
  relationship.
\<close>

theorem add_knowledge_source_sample:
  "text_chunks content = take 20 (filter (\<lambda>p. 50 < length p) (split_paragraphs content))
   \<and> length (text_chunks content) \<le> 20
   \<and> (\<forall>sid db1 db2.
         create_source w db u ttl content stype tgs = Inr (sid, db1)
         \<and> store_chunks eng db1 sid (enumerate 0 (chunk_markdown w content)) = (Inr (), db2) \<longrightarrow>
         add_knowledge_source eng ee w db u ttl content stype tgs =
           (Inr sid, fold (extract_step ee w sid) (text_chunks content) db2,
            failure_lines ee (text_chunks content)))
   \<and> (\<forall>e. extract_with_relations ee para = Inl e \<longrightarrow>
         extract_step ee w sid' para db' = db'
         \<and> failure_lines ee [para] = [''Entity extraction failed: '' @ e])
   \<and> (\<forall>entities rels. extract_with_relations ee para = Inr (entities, rels) \<longrightarrow>
         extract_step ee w sid' para db' =
           snd (process_relationships_for_source w
                  (snd (process_entities_for_source w db' sid' entities)) sid' rels)
         \<and> failure_lines ee [para] = [])
   \<and> ((\<forall>p \<in> set (text_chunks content). engines_agree_on ee ee' p) \<longrightarrow>
        add_knowledge_source eng ee w db u ttl content stype tgs =
        add_knowledge_source eng ee' w db u ttl content stype tgs)
   \<and> fst (add_knowledge_source eng ee w db u ttl content stype tgs) =
       fst (add_knowledge_source eng ee' w db u ttl content stype tgs)
   \<and> (\<forall>entities. infer_entities ee para = Inr entities \<longrightarrow>
        (\<exists>rels. extract_with_relations ee para = Inr (entities, rels)
           \<and> (isl (try_extract_relationships ee para entities) \<longrightarrow> rels = [])))"
proof -
  have agree: "add_knowledge_source eng ee w db u ttl content stype tgs =
        add_knowledge_source eng ee' w db u ttl content stype tgs"
    if "\<forall>p \<in> set (text_chunks content). engines_agree_on ee ee' p"
    unfolding add_knowledge_source_def
    by (auto simp: extract_sample_agree [OF that] split: sum.splits prod.splits)
  have res: "fst (add_knowledge_source eng ee w db u ttl content stype tgs) =
       fst (add_knowledge_source eng ee' w db u ttl content stype tgs)"
    by (simp add: add_knowledge_source_result)
  have sample: "text_chunks content = take 20 (filter (\<lambda>p. 50 < length p) (split_paragraphs content))"
    by (simp add: text_chunks_def)
  have len: "length (text_chunks content) \<le> 20"
    using text_chunks_bounds [of content] by blast
  have rel: "\<forall>entities. infer_entities ee para = Inr entities \<longrightarrow>
        (\<exists>rels. extract_with_relations ee para = Inr (entities, rels)
           \<and> (isl (try_extract_relationships ee para entities) \<longrightarrow> rels = []))"
    using extract_with_relations_contained [of ee para] by blast
  have steps: "\<forall>sid db1 db2.
         create_source w db u ttl content stype tgs = Inr (sid, db1)
         \<and> store_chunks eng db1 sid (enumerate 0 (chunk_markdown w content)) = (Inr (), db2) \<longrightarrow>
         add_knowledge_source eng ee w db u ttl content stype tgs =
           (Inr sid, fold (extract_step ee w sid) (text_chunks content) db2,
            failure_lines ee (text_chunks content))"
    using add_knowledge_source_steps [where w = w and db = db and u = u and ttl = ttl
        and content = content and stype = stype and tgs = tgs and eng = eng and ee = ee]
    by blast
  have failing: "\<forall>e. extract_with_relations ee para = Inl e \<longrightarrow>
         extract_step ee w sid' para db' = db'
         \<and> failure_lines ee [para] = [''Entity extraction failed: '' @ e]"
    using extract_step_cases(1) [where ee = ee and p = para and w = w and sid = sid' and db = db']
    by blast
  have answering: "\<forall>entities rels. extract_with_relations ee para = Inr (entities, rels) \<longrightarrow>
         extract_step ee w sid' para db' =
           snd (process_relationships_for_source w
                  (snd (process_entities_for_source w db' sid' entities)) sid' rels)
         \<and> failure_lines ee [para] = []"
    using extract_step_cases(2) [where ee = ee and p = para and w = w and sid = sid' and db = db']
    by blast
  from sample len steps failing answering agree res rel show ?thesis by blast
qed

lemma text_chunks_doc_three_paragraphs:
  "text_chunks doc_three_paragraphs = [para_unread, para_long]"
  by (simp add: text_chunks_def split_paragraphs_def doc_three_paragraphs_def para_long_def
      para_unread_def)

text \<open>
  The theorem at a document of two long paragraphs and a short one. The extraction fails
  on the first paragraph: its line is printed, the loop goes on to the second, whose
  entity is stored though the storing of relationships fails, and the ingestion returns
  \<open>Ok\<close>. An engine that differs on the short paragraph only gives the same outcome.
\<close>

theorem add_knowledge_source_sample_witness:
  "text_chunks doc_three_paragraphs = [para_unread, para_long]
   \<and> extract_with_relations ee_partial para_unread = Inl ''Inference failed''
   \<and> extract_with_relations ee_partial para_long = Inr ([(''John'', ''person'')], [])
   \<and> fst (add_knowledge_source eng_first_component ee_partial writers_people kb_one_source
        ''https://example.org/doc'' ''Doc'' doc_three_paragraphs ''document'' []) =
       Inr ''knowledge_source:s1''
   \<and> person (fst (snd (add_knowledge_source eng_first_component ee_partial writers_people
        kb_one_source ''https://example.org/doc'' ''Doc'' doc_three_paragraphs ''document'' []))) =
       [\<lparr>person_name = ''John'', aliases = [], first_seen = 0, last_seen = 0\<rparr>]
   \<and> snd (snd (add_knowledge_source eng_first_component ee_partial writers_people
        kb_one_source ''https://example.org/doc'' ''Doc'' doc_three_paragraphs ''document'' [])) =
       [''Entity extraction failed: Inference failed'']
   \<and> engines_agree_on ee_partial ee_sampled para_unread
   \<and> engines_agree_on ee_partial ee_sampled para_long
   \<and> infer_entities ee_partial ''Thanks.'' = Inl ''Inference failed''
   \<and> infer_entities ee_sampled ''Thanks.'' = Inr [(''Thanks'', ''topic'')]
   \<and> add_knowledge_source eng_first_component ee_partial writers_people kb_one_source
        ''https://example.org/doc'' ''Doc'' doc_three_paragraphs ''document'' [] =
      add_knowledge_source eng_first_component ee_sampled writers_people kb_one_source
        ''https://example.org/doc'' ''Doc'' doc_three_paragraphs ''document'' []"
proof -
  let ?chunk = "\<lparr>source_id = ''knowledge_source:s1'', chunk_text = doc_three_paragraphs,
      chunk_index = 0, embedding = [1]\<rparr>"
  let ?db2 = "kb_one_source\<lparr>knowledge_chunk := [?chunk]\<rparr>"
  let ?add = "add_knowledge_source eng_first_component ee_partial writers_people kb_one_source
        ''https://example.org/doc'' ''Doc'' doc_three_paragraphs ''document'' []"
  have unread: "infer_entities ee_partial para_unread = Inl ''Inference failed''"
    by (simp add: ee_partial_def para_unread_def para_long_def)
  then have x1: "extract_with_relations ee_partial para_unread = Inl ''Inference failed''"
    by (simp add: extract_with_relations_def)
  have ents: "infer_entities ee_partial para_long = Inr [(''John'', ''person'')]"
    "isl (try_extract_relationships ee_partial para_long [(''John'', ''person'')])"
    by (simp_all add: ee_partial_def)
  then have x2: "extract_with_relations ee_partial para_long = Inr ([(''John'', ''person'')], [])"
    by (simp add: extract_with_relations_def ee_partial_def)
  have agree: "engines_agree_on ee_partial ee_sampled para_unread"
    "engines_agree_on ee_partial ee_sampled para_long"
    by (simp_all add: engines_agree_on_def ee_partial_def ee_sampled_def para_unread_def
        para_long_def)
  have short: "infer_entities ee_partial ''Thanks.'' = Inl ''Inference failed''"
    "infer_entities ee_sampled ''Thanks.'' = Inr [(''Thanks'', ''topic'')]"
    by (simp_all add: ee_partial_def ee_sampled_def para_long_def)
  have created: "create_source writers_people kb_one_source ''https://example.org/doc'' ''Doc''
      doc_three_paragraphs ''document'' [] = Inr (''knowledge_source:s1'', kb_one_source)"
    by (simp add: writers_people_def)
  have stored: "store_chunks eng_first_component kb_one_source ''knowledge_source:s1''
      (enumerate 0 (chunk_markdown writers_people doc_three_paragraphs)) = (Inr (), ?db2)"
    by (simp add: writers_people_def eng_first_component_def create_chunk_def as_i32_def
        kb_one_source_def empty_kb_def)
  note inst = add_knowledge_source_sample [of doc_three_paragraphs writers_people kb_one_source
      "''https://example.org/doc''" "''Doc''" "''document''" "[]" eng_first_component ee_partial]
  from inst created stored
  have run: "?add = (Inr ''knowledge_source:s1'',
      fold (extract_step ee_partial writers_people ''knowledge_source:s1'')
        (text_chunks doc_three_paragraphs) ?db2,
      failure_lines ee_partial (text_chunks doc_three_paragraphs))"
    by blast
  have result: "fst ?add = Inr ''knowledge_source:s1''" by (simp add: run)
  have people: "person (fst (snd ?add)) =
      [\<lparr>person_name = ''John'', aliases = [], first_seen = 0, last_seen = 0\<rparr>]"
    unfolding run
    by (simp add: text_chunks_doc_three_paragraphs extract_step_def x1 x2 writers_people_def
        kb_one_source_def empty_kb_def)
  have printed: "snd (snd ?add) = [''Entity extraction failed: Inference failed'']"
    unfolding run
    by (simp add: text_chunks_doc_three_paragraphs failure_lines_def x1 x2)
  from inst [of _ _ _ ee_sampled] agree text_chunks_doc_three_paragraphs
  have same: "?add = add_knowledge_source eng_first_component ee_sampled writers_people
      kb_one_source ''https://example.org/doc'' ''Doc'' doc_three_paragraphs ''document'' []"
    by simp
  from text_chunks_doc_three_paragraphs x1 x2 result people printed agree short same
  show ?thesis by blast
qed

text \<open>
  Claim C9 as stated, paragraphs of at least 50 characters, fails at a content that is one
  paragraph of exactly 50 bytes: it is not in the sample.
\<close>

theorem text_chunks_fifty_counterexample:
  "length para_fifty = 50
   \<and> split_paragraphs para_fifty = [para_fifty]
   \<and> text_chunks para_fifty = []"
  by (simp add: text_chunks_def split_paragraphs_def para_fifty_def)

section \<open>Deletion of a meeting\<close>

lemma filter_filter_none: "filter P (filter (\<lambda>x. \<not> P x) xs) = []"
  by (induction xs) auto

lemma run_delete_steps_prefix:
  "run_delete_steps fault mid steps db = (r, db') \<Longrightarrow>
   \<exists>k \<le> length steps. db' = fold (apply_delete_step mid) (take k steps) db
      \<and> (r = Inr ()) = (k = length steps) \<and> (isl r) = (k < length steps)"
proof (induction steps arbitrary: db)
  case Nil
  then show ?case by auto
next
  case (Cons st rest)
  show ?case
  proof (cases "db_status db = None \<and> fault st = None")
    case False
    with Cons.prems have "db' = db" "isl r" by (auto split: option.splits)
    then show ?thesis by (intro exI [of _ 0]) auto
  next
    case True
    with Cons.prems have "run_delete_steps fault mid rest (apply_delete_step mid st db) = (r, db')"
      by simp
    from Cons.IH [OF this] obtain k where k: "k \<le> length rest"
      "db' = fold (apply_delete_step mid) (take k rest) (apply_delete_step mid st db)"
      "(r = Inr ()) = (k = length rest)" "(isl r) = (k < length rest)"
      by blast
    then show ?thesis by (intro exI [of _ "Suc k"]) auto
  qed
qed

lemma status_after_steps:
  "db_status (fold (apply_delete_step mid) steps db) = db_status db"
proof (induction steps arbitrary: db)
  case Nil
  then show ?case by simp
next
  case (Cons st rest)
  then show ?case by (cases st) simp_all
qed

lemma knowledge_source_after_steps:
  "knowledge_source (fold (apply_delete_step mid) steps db) = knowledge_source db"
proof (induction steps arbitrary: db)
  case Nil
  then show ?case by simp
next
  case (Cons st rest)
  then show ?case by (cases st) simp_all
qed

lemma meeting_after_child_steps:
  "DeleteMeetingRecord \<notin> set steps \<Longrightarrow>
   meeting (fold (apply_delete_step mid) steps db) = meeting db"
proof (induction steps arbitrary: db)
  case Nil
  then show ?case by simp
next
  case (Cons st rest)
  then show ?case by (cases st) simp_all
qed

lemma all_steps_own_nothing:
  "owns_nothing (fold (apply_delete_step mid) delete_meeting_steps db) mid
   \<and> map_of (meeting (fold (apply_delete_step mid) delete_meeting_steps db)) mid = None"
  by (auto simp: delete_meeting_steps_def owns_nothing_def filter_filter_none map_of_eq_None_iff)

lemma no_edge_to:
  "filter (\<lambda>e. snd e = mid) es = [] \<Longrightarrow> filter (\<lambda>x. (f x, mid) \<in> set es) xs = []"
  by (auto simp: filter_empty_conv)

lemma owns_nothing_accessors:
  assumes "owns_nothing db mid" "db_status db = None"
  shows "get_meeting_segments db mid = Inr []"
    "get_meeting_action_items db mid = Inr []"
    "get_meeting_decisions db mid = Inr []"
    "get_meeting_topics db mid = Inr []"
    "get_meeting_people db mid = Inr []"
    "get_meeting_knowledge db mid = Inr []"
  using assms
  by (simp_all add: owns_nothing_def get_meeting_segments_def get_meeting_action_items_def
      get_meeting_decisions_def get_meeting_topics_def get_meeting_people_def
      get_meeting_knowledge_def select_rows_def no_edge_to List.map_filter_simps)

lemma take_steps_no_record:
  "k < length delete_meeting_steps \<Longrightarrow> DeleteMeetingRecord \<notin> set (take k delete_meeting_steps)"
proof -
  assume k: "k < length delete_meeting_steps"
  then have "take k delete_meeting_steps = take k (butlast delete_meeting_steps)"
    by (simp add: take_butlast)
  moreover have "DeleteMeetingRecord \<notin> set (butlast delete_meeting_steps)"
    by (simp add: delete_meeting_steps_def)
  ultimately show ?thesis
    using set_take_subset [of k "butlast delete_meeting_steps"] by auto
qed

text \<open>
  Claim C8. When \<^verbatim>\<open>delete_meeting\<close> returns \<open>Ok\<close> for a meeting id, \<^verbatim>\<open>get_meeting\<close> of
  that id is \<open>None\<close> afterwards, every per-meeting accessor returns the empty sequence,
  and no segment, action item, decision, entity relation, meeting-knowledge link or graph
  edge carries the id. The meeting record goes last: when the operation returns an error,
  the table of meetings is as it was.
\<close>

theorem delete_meeting_cascade:
  assumes "delete_meeting fault db mid = (r, db')"
  shows "(r = Inr () \<longrightarrow>
            get_meeting db' mid = Inr None
          \<and> get_meeting_segments db' mid = Inr []
          \<and> get_meeting_action_items db' mid = Inr []
          \<and> get_meeting_decisions db' mid = Inr []
          \<and> get_meeting_topics db' mid = Inr []
          \<and> get_meeting_people db' mid = Inr []
          \<and> get_meeting_knowledge db' mid = Inr []
          \<and> owns_nothing db' mid)
       \<and> (isl r \<longrightarrow> meeting db' = meeting db)"
proof (cases "get_meeting db mid")
  case (Inl e)
  with assms show ?thesis by (auto simp: delete_meeting_def)
next
  case (Inr found)
  then have st: "db_status db = None"
    by (auto simp: get_meeting_def split: option.splits)
  show ?thesis
  proof (cases found)
    case None
    with Inr assms show ?thesis by (auto simp: delete_meeting_def)
  next
    case (Some m)
    with Inr assms have "run_delete_steps fault mid delete_meeting_steps db = (r, db')"
      by (simp add: delete_meeting_def)
    from run_delete_steps_prefix [OF this] obtain k where k: "k \<le> length delete_meeting_steps"
      and db': "db' = fold (apply_delete_step mid) (take k delete_meeting_steps) db"
      and ok: "(r = Inr ()) = (k = length delete_meeting_steps)"
      and bad: "(isl r) = (k < length delete_meeting_steps)"
      by blast
    have st': "db_status db' = None" by (simp add: db' status_after_steps st)
    have success: "get_meeting db' mid = Inr None \<and> owns_nothing db' mid" if "r = Inr ()"
    proof -
      from that ok have "db' = fold (apply_delete_step mid) delete_meeting_steps db"
        by (simp add: db')
      then show ?thesis
        using all_steps_own_nothing [of mid db] st' by (simp add: get_meeting_def)
    qed
    have failure: "meeting db' = meeting db" if "isl r"
      using that bad take_steps_no_record [of k] meeting_after_child_steps db' by simp
    from success failure owns_nothing_accessors [OF _ st'] show ?thesis by blast
  qed
qed

lemma delete_m1_ok: "fst (delete_meeting no_fault kb_two_meetings ''m1'') = Inr ()"
  by (simp add: delete_meeting_def get_meeting_def kb_two_meetings_def empty_kb_def
      delete_meeting_steps_def no_fault_def)

lemma delete_m1_fault:
  "fst (delete_meeting fault_at_decisions kb_two_meetings ''m1'') = Inl ''Connection reset''"
  by (simp add: delete_meeting_def get_meeting_def kb_two_meetings_def empty_kb_def
      delete_meeting_steps_def fault_at_decisions_def)

text \<open>
  The theorem at a store of two meetings, the first of which owns a row of every kind:
  a run with no fault, and a run whose third statement fails.
\<close>

theorem delete_meeting_cascade_witness:
  "fst (delete_meeting no_fault kb_two_meetings ''m1'') = Inr ()
   \<and> length (segment kb_two_meetings) = 2
   \<and> get_meeting (snd (delete_meeting no_fault kb_two_meetings ''m1'')) ''m1'' = Inr None
   \<and> get_meeting_segments (snd (delete_meeting no_fault kb_two_meetings ''m1'')) ''m1'' = Inr []
   \<and> get_meeting_action_items (snd (delete_meeting no_fault kb_two_meetings ''m1'')) ''m1'' = Inr []
   \<and> get_meeting_decisions (snd (delete_meeting no_fault kb_two_meetings ''m1'')) ''m1'' = Inr []
   \<and> get_meeting_topics (snd (delete_meeting no_fault kb_two_meetings ''m1'')) ''m1'' = Inr []
   \<and> get_meeting_people (snd (delete_meeting no_fault kb_two_meetings ''m1'')) ''m1'' = Inr []
   \<and> get_meeting_knowledge (snd (delete_meeting no_fault kb_two_meetings ''m1'')) ''m1'' = Inr []
   \<and> fst (delete_meeting fault_at_decisions kb_two_meetings ''m1'') = Inl ''Connection reset''
   \<and> meeting (snd (delete_meeting fault_at_decisions kb_two_meetings ''m1'')) =
       meeting kb_two_meetings"
proof -
  have run: "delete_meeting no_fault kb_two_meetings ''m1'' =
      (Inr (), snd (delete_meeting no_fault kb_two_meetings ''m1''))"
    using delete_m1_ok by (simp add: prod_eq_iff)
  have run': "delete_meeting fault_at_decisions kb_two_meetings ''m1'' =
      (Inl ''Connection reset'', snd (delete_meeting fault_at_decisions kb_two_meetings ''m1''))"
    using delete_m1_fault by (simp add: prod_eq_iff)
  have n: "length (segment kb_two_meetings) = 2"
    by (simp add: kb_two_meetings_def empty_kb_def)
  from delete_meeting_cascade [OF run] delete_meeting_cascade [OF run'] delete_m1_ok
    delete_m1_fault n
  show ?thesis by simp
qed

section \<open>Speaker relabelling\<close>

lemma earliest_mem: "earliest r xs \<in> set (r # xs)"
  by (induction xs arbitrary: r) (auto split: if_splits)

lemma earliest_le_head: "range_start (earliest r xs) \<le> range_start r"
proof (induction xs arbitrary: r)
  case Nil
  then show ?case by simp
next
  case (Cons y ys)
  show ?case
    using Cons.IH [of "if range_start y < range_start r then y else r"]
    by (auto split: if_splits)
qed

lemma earliest_le_tail: "x \<in> set xs \<Longrightarrow> range_start (earliest r xs) \<le> range_start x"
proof (induction xs arbitrary: r)
  case Nil
  then show ?case by simp
next
  case (Cons y ys)
  let ?r' = "if range_start y < range_start r then y else r"
  show ?case
  proof (cases "x = y")
    case True
    have "range_start (earliest ?r' ys) \<le> range_start ?r'" by (rule earliest_le_head)
    also have "\<dots> \<le> range_start y" by simp
    finally show ?thesis using True by simp
  next
    case False
    with Cons.prems have "x \<in> set ys" by simp
    then show ?thesis using Cons.IH [of ?r'] by simp
  qed
qed

lemma earliest_le: "x \<in> set (r # xs) \<Longrightarrow> range_start (earliest r xs) \<le> range_start x"
  using earliest_le_head [of r xs] earliest_le_tail [of x xs r] by auto

lemma resolve_label_None:
  "(resolve_label ranges m = None) = (\<forall>r \<in> set ranges. \<not> in_range m r)"
proof -
  have "(resolve_label ranges m = None) = (filter (in_range m) ranges = [])"
    by (simp add: resolve_label_def split: list.splits)
  then show ?thesis by (simp add: filter_empty_conv)
qed

lemma resolve_label_Some:
  assumes "resolve_label ranges m = Some l"
  shows "\<exists>r \<in> set ranges. in_range m r \<and> l = range_label r
           \<and> (\<forall>r' \<in> set ranges. in_range m r' \<longrightarrow> range_start r \<le> range_start r')"
proof -
  from assms obtain r rs where f: "filter (in_range m) ranges = r # rs"
    and l: "l = range_label (earliest r rs)"
    by (auto simp: resolve_label_def split: list.splits)
  have mem: "earliest r rs \<in> set (filter (in_range m) ranges)"
    using earliest_mem [of r rs] f by simp
  have least: "range_start (earliest r rs) \<le> range_start r'"
    if "r' \<in> set ranges" "in_range m r'" for r'
  proof -
    from that have "r' \<in> set (r # rs)" using f [symmetric] by simp
    then show ?thesis by (rule earliest_le)
  qed
  from mem l least show ?thesis by auto
qed

lemma resolve_label_inside:
  assumes "non_overlapping ranges" "r \<in> set ranges"
    and "range_start r < m" "m \<le> range_end r"
  shows "resolve_label ranges m = Some (range_label r)"
proof -
  have "in_range m r" using assms by (simp add: in_range_def)
  with assms(2) have "resolve_label ranges m \<noteq> None" by (auto simp: resolve_label_None)
  then obtain l where l: "resolve_label ranges m = Some l" by auto
  from resolve_label_Some [OF l] obtain e where e: "e \<in> set ranges" "in_range m e"
    "l = range_label e" "\<forall>r' \<in> set ranges. in_range m r' \<longrightarrow> range_start e \<le> range_start r'"
    by blast
  from e(4) assms(2) \<open>in_range m r\<close> have le: "range_start e \<le> range_start r" by blast
  from assms(1) e(1) assms(2)
  have "e = r \<or> range_end e \<le> range_start r \<or> range_end r \<le> range_start e"
    by (auto simp: non_overlapping_def list_all_iff)
  with le assms(3,4) e(2) have "e = r" by (auto simp: in_range_def)
  with l e(3) show ?thesis by simp
qed

lemma relabel_segment_fields: "(relabel_segment mid ranges s)\<lparr>speaker := speaker s\<rparr> = s"
  by (simp add: relabel_segment_def split: option.splits)

lemma relabel_segment_unchanged:
  "\<not> (to_relabel mid s \<and> (\<exists>r \<in> set ranges. in_range (midpoint s) r)) \<Longrightarrow>
   relabel_segment mid ranges s = s"
  using resolve_label_None [of ranges "midpoint s"]
  by (auto simp: relabel_segment_def split: option.splits)

lemma relabel_segment_inside:
  "to_relabel mid s \<Longrightarrow> non_overlapping ranges \<Longrightarrow> r \<in> set ranges \<Longrightarrow>
   range_start r < midpoint s \<Longrightarrow> midpoint s \<le> range_end r \<Longrightarrow>
   speaker (relabel_segment mid ranges s) = range_label r"
  by (simp add: relabel_segment_def resolve_label_inside)

lemma relabel_segment_earliest:
  assumes "to_relabel mid s" "r0 \<in> set ranges" "in_range (midpoint s) r0"
  shows "\<exists>r \<in> set ranges. in_range (midpoint s) r
            \<and> speaker (relabel_segment mid ranges s) = range_label r
            \<and> (\<forall>r' \<in> set ranges. in_range (midpoint s) r' \<longrightarrow> range_start r \<le> range_start r')"
proof -
  from assms(2,3) have "resolve_label ranges (midpoint s) \<noteq> None"
    by (auto simp: resolve_label_None)
  then obtain l where l: "resolve_label ranges (midpoint s) = Some l" by auto
  then have "speaker (relabel_segment mid ranges s) = l"
    using assms(1) by (simp add: relabel_segment_def)
  with resolve_label_Some [OF l] show ?thesis by auto
qed

lemma relabel_three_guests:
  "map speaker (segment (snd (relabel_speakers kb_three_guests ''m1'' diarization_three))) =
     [''Speaker 1'', ''Speaker 2'', ''Speaker 3'']"
  by (simp add: relabel_speakers_def kb_three_guests_def empty_kb_def guest_segment_def
      relabel_segment_def to_relabel_def generic_label_def midpoint_def resolve_label_def
      diarization_three_def in_range_def range_start_def range_end_def range_label_def)

text \<open>
  Claim C7. When \<^verbatim>\<open>relabel_speakers\<close> returns \<open>Ok\<close>, it has changed the segments only,
  and of a segment only the speaker. A segment is left as it is unless it belongs to the
  meeting, is generically labelled and its midpoint \<open>(start_ms + end_ms) / 2\<close> lies in a
  range; such a segment gets the label of a range that holds its midpoint, the one that
  starts first. With non-overlapping ranges, a midpoint after the start of a range and up
  to its end gets that range's label, so a midpoint on the boundary of two ranges gets the
  label of the earlier one. The three guest segments with the midpoints 5 s, 15 s and 25 s
  get the labels of the ranges 0 to 10 s, 10 to 20 s and 20 to 30 s, and the midpoint 10 s
  resolves to the first range.
\<close>

theorem relabel_speakers_midpoint:
  "(relabel_speakers db mid ranges = (Inr n, db') \<longrightarrow>
        db' = db\<lparr>segment := segment db'\<rparr>
      \<and> length (segment db') = length (segment db)
      \<and> (\<forall>s s'. (s, s') \<in> set (zip (segment db) (segment db')) \<longrightarrow>
            s'\<lparr>speaker := speaker s\<rparr> = s
          \<and> (\<not> (to_relabel mid s \<and> (\<exists>r \<in> set ranges. in_range (midpoint s) r)) \<longrightarrow> s' = s)
          \<and> (to_relabel mid s \<and> (\<exists>r \<in> set ranges. in_range (midpoint s) r) \<longrightarrow>
                (\<exists>r \<in> set ranges. in_range (midpoint s) r \<and> speaker s' = range_label r
                   \<and> (\<forall>r' \<in> set ranges. in_range (midpoint s) r' \<longrightarrow>
                          range_start r \<le> range_start r')))
          \<and> (\<forall>r \<in> set ranges. to_relabel mid s \<and> non_overlapping ranges
                 \<and> range_start r < midpoint s \<and> midpoint s \<le> range_end r \<longrightarrow>
                 speaker s' = range_label r)))
   \<and> map midpoint (segment kb_three_guests) = [5000, 15000, 25000]
   \<and> map speaker (segment (snd (relabel_speakers kb_three_guests ''m1'' diarization_three))) =
        [''Speaker 1'', ''Speaker 2'', ''Speaker 3'']
   \<and> resolve_label diarization_three 10000 = Some ''Speaker 1''"
proof -
  have general: "db' = db\<lparr>segment := segment db'\<rparr>
      \<and> length (segment db') = length (segment db)
      \<and> (\<forall>s s'. (s, s') \<in> set (zip (segment db) (segment db')) \<longrightarrow>
            s'\<lparr>speaker := speaker s\<rparr> = s
          \<and> (\<not> (to_relabel mid s \<and> (\<exists>r \<in> set ranges. in_range (midpoint s) r)) \<longrightarrow> s' = s)
          \<and> (to_relabel mid s \<and> (\<exists>r \<in> set ranges. in_range (midpoint s) r) \<longrightarrow>
                (\<exists>r \<in> set ranges. in_range (midpoint s) r \<and> speaker s' = range_label r
                   \<and> (\<forall>r' \<in> set ranges. in_range (midpoint s) r' \<longrightarrow>
                          range_start r \<le> range_start r')))
          \<and> (\<forall>r \<in> set ranges. to_relabel mid s \<and> non_overlapping ranges
                 \<and> range_start r < midpoint s \<and> midpoint s \<le> range_end r \<longrightarrow>
                 speaker s' = range_label r))"
    if run: "relabel_speakers db mid ranges = (Inr n, db')"
  proof -
    from run have db': "db' = db\<lparr>segment := map (relabel_segment mid ranges) (segment db)\<rparr>"
      by (auto simp: relabel_speakers_def split: option.splits)
    have seg: "segment db' = map (relabel_segment mid ranges) (segment db)"
      by (simp add: db')
    have pair: "s' = relabel_segment mid ranges s"
      if "(s, s') \<in> set (zip (segment db) (segment db'))" for s s'
      using that unfolding seg by (auto simp: zip_map2 zip_same_conv_map)
    have "db' = db\<lparr>segment := segment db'\<rparr>" by (simp add: db')
    moreover have "length (segment db') = length (segment db)" by (simp add: seg)
    moreover have "s'\<lparr>speaker := speaker s\<rparr> = s
          \<and> (\<not> (to_relabel mid s \<and> (\<exists>r \<in> set ranges. in_range (midpoint s) r)) \<longrightarrow> s' = s)
          \<and> (to_relabel mid s \<and> (\<exists>r \<in> set ranges. in_range (midpoint s) r) \<longrightarrow>
                (\<exists>r \<in> set ranges. in_range (midpoint s) r \<and> speaker s' = range_label r
                   \<and> (\<forall>r' \<in> set ranges. in_range (midpoint s) r' \<longrightarrow>
                          range_start r \<le> range_start r')))
          \<and> (\<forall>r \<in> set ranges. to_relabel mid s \<and> non_overlapping ranges
                 \<and> range_start r < midpoint s \<and> midpoint s \<le> range_end r \<longrightarrow>
                 speaker s' = range_label r)"
      if "(s, s') \<in> set (zip (segment db) (segment db'))" for s s'
      unfolding pair [OF that]
      using relabel_segment_fields [where s = s and mid = mid and ranges = ranges]
        relabel_segment_unchanged [where s = s and mid = mid and ranges = ranges]
        relabel_segment_earliest [where s = s and mid = mid and ranges = ranges]
        relabel_segment_inside [where s = s and mid = mid and ranges = ranges]
      by blast
    ultimately show ?thesis by blast
  qed
  have mids: "map midpoint (segment kb_three_guests) = [5000, 15000, 25000]"
    by (simp add: kb_three_guests_def empty_kb_def guest_segment_def midpoint_def)
  have boundary: "resolve_label diarization_three 10000 = Some ''Speaker 1''"
    by (simp add: resolve_label_def diarization_three_def in_range_def range_start_def
        range_end_def range_label_def)
  from general mids relabel_three_guests boundary show ?thesis by blast
qed

text \<open>
  The theorem at a guest segment whose midpoint is the boundary of the first two ranges:
  it gets the label of the first; the segment of the microphone beside it is left alone.
\<close>

theorem relabel_speakers_midpoint_witness:
  "relabel_speakers kb_guest_and_host ''m1'' diarization_three =
     (Inr 1, snd (relabel_speakers kb_guest_and_host ''m1'' diarization_three))
   \<and> segment (snd (relabel_speakers kb_guest_and_host ''m1'' diarization_three)) =
       [(guest_segment 8000 12000)\<lparr>speaker := ''Speaker 1''\<rparr>, host_segment 0 4000]
   \<and> non_overlapping diarization_three
   \<and> midpoint (guest_segment 8000 12000) = 10000
   \<and> to_relabel ''m1'' (guest_segment 8000 12000)
   \<and> (0, 10000, 0, ''Speaker 1'') \<in> set diarization_three
   \<and> (10000, 20000, 1, ''Speaker 2'') \<in> set diarization_three
   \<and> in_range 10000 (0, 10000, 0, ''Speaker 1'')
   \<and> in_range 10000 (10000, 20000, 1, ''Speaker 2'')
   \<and> speaker ((guest_segment 8000 12000)\<lparr>speaker := ''Speaker 1''\<rparr>) =
       range_label (0, 10000, 0, ''Speaker 1'')"
proof -
  let ?db' = "snd (relabel_speakers kb_guest_and_host ''m1'' diarization_three)"
  let ?g = "guest_segment 8000 12000"
  let ?h = "host_segment 0 4000"
  let ?r1 = "(0, 10000, 0, ''Speaker 1'') :: diarization_range"
  let ?r2 = "(10000, 20000, 1, ''Speaker 2'') :: diarization_range"
  have count: "fst (relabel_speakers kb_guest_and_host ''m1'' diarization_three) = Inr 1"
    by (simp add: relabel_speakers_def kb_guest_and_host_def empty_kb_def guest_segment_def
      host_segment_def to_relabel_def generic_label_def midpoint_def resolve_label_def
      diarization_three_def in_range_def range_start_def range_end_def)
  then have run: "relabel_speakers kb_guest_and_host ''m1'' diarization_three = (Inr 1, ?db')"
    by (simp add: prod_eq_iff)
  have segs': "segment ?db' = [?g\<lparr>speaker := ''Speaker 1''\<rparr>, ?h]"
    by (simp add: relabel_speakers_def kb_guest_and_host_def empty_kb_def guest_segment_def
      host_segment_def relabel_segment_def to_relabel_def generic_label_def midpoint_def
      resolve_label_def diarization_three_def in_range_def range_start_def range_end_def
      range_label_def)
  have segs: "segment kb_guest_and_host = [?g, ?h]"
    by (simp add: kb_guest_and_host_def empty_kb_def)
  have pair: "(?g, ?g\<lparr>speaker := ''Speaker 1''\<rparr>) \<in> set (zip (segment kb_guest_and_host) (segment ?db'))"
    unfolding segs segs' by simp
  have ranges: "non_overlapping diarization_three" "?r1 \<in> set diarization_three"
    "?r2 \<in> set diarization_three" "in_range 10000 ?r1" "in_range 10000 ?r2"
    by (simp_all add: non_overlapping_def diarization_three_def in_range_def range_start_def
        range_end_def)
  have g: "midpoint ?g = 10000" "to_relabel ''m1'' ?g" "range_start ?r1 < midpoint ?g"
    "midpoint ?g \<le> range_end ?r1"
    by (simp_all add: to_relabel_def generic_label_def guest_segment_def midpoint_def
        range_start_def range_end_def)
  from relabel_speakers_midpoint [of kb_guest_and_host "''m1''" diarization_three 1 ?db'] run
  have "\<forall>s s'. (s, s') \<in> set (zip (segment kb_guest_and_host) (segment ?db')) \<longrightarrow>
      (\<forall>r \<in> set diarization_three. to_relabel ''m1'' s \<and> non_overlapping diarization_three
                 \<and> range_start r < midpoint s \<and> midpoint s \<le> range_end r \<longrightarrow>
                 speaker s' = range_label r)"
    by blast
  with pair ranges(1,2) g have "speaker (?g\<lparr>speaker := ''Speaker 1''\<rparr>) = range_label ?r1"
    by blast
  with run segs' ranges g(1,2) show ?thesis by blast
qed

section \<open>Temporal parser\<close>

lemma starts_with_iff: "starts_with t p = (\<exists>post. t = p @ post)"
  by (induction t p rule: starts_with.induct) auto

lemma contains_iff: "contains t p = (\<exists>pre post. t = pre @ p @ post)"
proof (induction t)
  case Nil
  then show ?case by auto
next
  case (Cons c cs)
  have "(\<exists>pre post. c # cs = pre @ p @ post) =
        ((\<exists>post. c # cs = p @ post) \<or> (\<exists>pre post. cs = pre @ p @ post))"
  proof
    assume "\<exists>pre post. c # cs = pre @ p @ post"
    then obtain pre post where d: "c # cs = pre @ p @ post" by blast
    show "(\<exists>post. c # cs = p @ post) \<or> (\<exists>pre post. cs = pre @ p @ post)"
    proof (cases pre)
      case Nil
      with d show ?thesis by auto
    next
      case (Cons a pre')
      with d have "cs = pre' @ p @ post" by simp
      then show ?thesis by blast
    qed
  next
    assume "(\<exists>post. c # cs = p @ post) \<or> (\<exists>pre post. cs = pre @ p @ post)"
    then show "\<exists>pre post. c # cs = pre @ p @ post"
    proof
      assume "\<exists>post. c # cs = p @ post"
      then obtain post where "c # cs = [] @ p @ post" by auto
      then show ?thesis by blast
    next
      assume "\<exists>pre post. cs = pre @ p @ post"
      then obtain pre post where "c # cs = (c # pre) @ p @ post" by auto
      then show ?thesis by blast
    qed
  qed
  with Cons show ?case by (simp add: starts_with_iff)
qed

text \<open>
  What the matchers find: \<open>contains\<close> a phrase anywhere in the text, \<open>find_count\<close> a digit
  followed by the unit, and its number is the run of digits that ends there.
\<close>

lemma find_count_None_iff:
  "(find_count u ds t = None) = (\<not> (\<exists>pre c post. t = pre @ c # u @ post \<and> is_digit c))"
proof (induction t arbitrary: ds)
  case Nil
  then show ?case by simp
next
  case (Cons a as)
  have split: "(\<exists>pre c post. a # as = pre @ c # u @ post \<and> is_digit c) =
      ((is_digit a \<and> starts_with as u) \<or> (\<exists>pre c post. as = pre @ c # u @ post \<and> is_digit c))"
  proof
    assume "\<exists>pre c post. a # as = pre @ c # u @ post \<and> is_digit c"
    then obtain pre c post where d: "a # as = pre @ c # u @ post" "is_digit c" by blast
    show "(is_digit a \<and> starts_with as u) \<or> (\<exists>pre c post. as = pre @ c # u @ post \<and> is_digit c)"
    proof (cases pre)
      case Nil
      with d show ?thesis by (auto simp: starts_with_iff)
    next
      case (Cons b pre')
      with d have "as = pre' @ c # u @ post" by simp
      with d(2) show ?thesis by blast
    qed
  next
    assume "(is_digit a \<and> starts_with as u) \<or> (\<exists>pre c post. as = pre @ c # u @ post \<and> is_digit c)"
    then show "\<exists>pre c post. a # as = pre @ c # u @ post \<and> is_digit c"
    proof
      assume "is_digit a \<and> starts_with as u"
      then obtain post where "a # as = [] @ a # u @ post" "is_digit a"
        by (auto simp: starts_with_iff)
      then show ?thesis by blast
    next
      assume "\<exists>pre c post. as = pre @ c # u @ post \<and> is_digit c"
      then obtain pre c post where "a # as = (a # pre) @ c # u @ post" "is_digit c" by auto
      then show ?thesis by blast
    qed
  qed
  show ?case
    unfolding split using Cons.IH [of "ds @ [a]"] Cons.IH [of "[]"] by simp
qed

lemma find_count_Some:
  "find_count u ds t = Some n \<Longrightarrow> \<forall>c \<in> set ds. is_digit c \<Longrightarrow>
   \<exists>pre run post. ds @ t = pre @ run @ u @ post \<and> run \<noteq> [] \<and> (\<forall>c \<in> set run. is_digit c)
      \<and> n = digits_to_nat run \<and> (pre = [] \<or> \<not> is_digit (last pre))"
proof (induction t arbitrary: ds)
  case Nil
  then show ?case by simp
next
  case (Cons a as)
  show ?case
  proof (cases "is_digit a")
    case False
    with Cons.prems have "find_count u [] as = Some n" by simp
    from Cons.IH [OF this] obtain pre run post where d: "as = pre @ run @ u @ post"
      "run \<noteq> []" "\<forall>c \<in> set run. is_digit c" "n = digits_to_nat run"
      "pre = [] \<or> \<not> is_digit (last pre)"
      by auto
    have "ds @ a # as = (ds @ a # pre) @ run @ u @ post" using d(1) by simp
    moreover have "\<not> is_digit (last (ds @ a # pre))"
    proof (cases pre)
      case Nil
      then show ?thesis using False by simp
    next
      case (Cons b pre')
      then have "last (ds @ a # pre) = last pre" by simp
      with d(5) Cons show ?thesis by simp
    qed
    ultimately show ?thesis using d(2,3,4) by blast
  next
    case True
    show ?thesis
    proof (cases "starts_with as u")
      case True
      then obtain post where "as = u @ post" by (auto simp: starts_with_iff)
      then have "ds @ a # as = [] @ (ds @ [a]) @ u @ post" by simp
      moreover from True \<open>is_digit a\<close> Cons.prems have "n = digits_to_nat (ds @ [a])" by simp
      moreover have "\<forall>c \<in> set (ds @ [a]). is_digit c" using \<open>is_digit a\<close> Cons.prems by simp
      ultimately show ?thesis by blast
    next
      case False
      with True Cons.prems have "find_count u (ds @ [a]) as = Some n" by simp
      moreover have "\<forall>c \<in> set (ds @ [a]). is_digit c" using True Cons.prems by simp
      ultimately show ?thesis using Cons.IH [of "ds @ [a]"] by simp
    qed
  qed
qed

lemma weeks_ago_phrase:
  "(weeks_ago t \<noteq> None) = (\<exists>pre c post. t = pre @ c # '' weeks ago'' @ post \<and> is_digit c)"
  "weeks_ago t = Some n \<Longrightarrow>
   \<exists>pre run post. t = pre @ run @ '' weeks ago'' @ post \<and> run \<noteq> []
      \<and> (\<forall>c \<in> set run. is_digit c) \<and> n = digits_to_nat run"
  using find_count_None_iff [of "'' weeks ago''" "[]" t]
    find_count_Some [of "'' weeks ago''" "[]" t n]
  by (auto simp: weeks_ago_def)

lemma days_ago_phrase:
  "(days_ago t \<noteq> None) = (\<exists>pre c post. t = pre @ c # '' days ago'' @ post \<and> is_digit c)"
  "days_ago t = Some n \<Longrightarrow>
   \<exists>pre run post. t = pre @ run @ '' days ago'' @ post \<and> run \<noteq> []
      \<and> (\<forall>c \<in> set run. is_digit c) \<and> n = digits_to_nat run"
  using find_count_None_iff [of "'' days ago''" "[]" t]
    find_count_Some [of "'' days ago''" "[]" t n]
  by (auto simp: days_ago_def)

text \<open>
  Claim C5. For every text and \<open>now\<close>: a text with a phrase "N weeks ago" gives the
  window centred at \<open>now\<close> minus \<open>7N\<close> days, 3.5 days (84 hours) to either side; with no
  such phrase, a phrase "N days ago" gives the window centred at \<open>now\<close> minus \<open>N\<close> days, 12
  hours to either side; with neither, "last week" gives \<open>[now - 14d, now - 7d)\<close>; else
  "last month" gives \<open>[now - 30d, now)\<close>; else "yesterday" gives \<open>[now - 2d, now - 1d)\<close>;
  and a text that matches no rule gives no window.
\<close>

theorem parse_temporal_rules:
  "(\<forall>n. weeks_ago txt = Some n \<longrightarrow>
        parse_temporal txt now = Some (now - 7 * int n * day_ms - 84 * hour_ms,
                                       now - 7 * int n * day_ms + 84 * hour_ms))
   \<and> (\<forall>n. weeks_ago txt = None \<and> days_ago txt = Some n \<longrightarrow>
        parse_temporal txt now = Some (now - int n * day_ms - 12 * hour_ms,
                                       now - int n * day_ms + 12 * hour_ms))
   \<and> (weeks_ago txt = None \<and> days_ago txt = None \<and> contains txt ''last week'' \<longrightarrow>
        parse_temporal txt now = Some (now - 14 * day_ms, now - 7 * day_ms))
   \<and> (weeks_ago txt = None \<and> days_ago txt = None \<and> \<not> contains txt ''last week''
        \<and> contains txt ''last month'' \<longrightarrow>
        parse_temporal txt now = Some (now - 30 * day_ms, now))
   \<and> (weeks_ago txt = None \<and> days_ago txt = None \<and> \<not> contains txt ''last week''
        \<and> \<not> contains txt ''last month'' \<and> contains txt ''yesterday'' \<longrightarrow>
        parse_temporal txt now = Some (now - 2 * day_ms, now - day_ms))
   \<and> (weeks_ago txt = None \<and> days_ago txt = None \<and> \<not> contains txt ''last week''
        \<and> \<not> contains txt ''last month'' \<and> \<not> contains txt ''yesterday'' \<longrightarrow>
        parse_temporal txt now = None)"
  by (simp add: parse_temporal_def temporal_rules_def rule_weeks_ago_def rule_days_ago_def
      rule_last_week_def rule_last_month_def rule_yesterday_def weeks_ago_def days_ago_def
      centred_def)

text \<open>The theorem at one question for each rule, and at one with no temporal phrase.\<close>

theorem parse_temporal_rules_witness:
  "parse_temporal ''What did John say about Project Alpha 3 weeks ago?'' 10000000000 =
       Some (7883200000, 8488000000)
   \<and> parse_temporal ''the notes from 10 days ago'' 10000000000 = Some (9092800000, 9179200000)
   \<and> parse_temporal ''decisions of last week'' 10000000000 = Some (8790400000, 9395200000)
   \<and> parse_temporal ''What was decided last month?'' 10000000000 = Some (7408000000, 10000000000)
   \<and> parse_temporal ''Who spoke yesterday?'' 10000000000 = Some (9827200000, 9913600000)
   \<and> parse_temporal ''What are the key topics?'' 10000000000 = None"
proof -
  let ?now = "10000000000 :: int"
  let ?q1 = "''What did John say about Project Alpha 3 weeks ago?''"
  let ?q2 = "''the notes from 10 days ago''"
  let ?q3 = "''decisions of last week''"
  let ?q4 = "''What was decided last month?''"
  let ?q5 = "''Who spoke yesterday?''"
  let ?q6 = "''What are the key topics?''"
  have q1: "weeks_ago ?q1 = Some 3"
    by (simp add: weeks_ago_def is_digit_def digits_to_nat_def digit_value_def)
  have q2: "weeks_ago ?q2 = None" "days_ago ?q2 = Some 10"
    by (simp_all add: weeks_ago_def days_ago_def is_digit_def digits_to_nat_def digit_value_def)
  have q3: "weeks_ago ?q3 = None" "days_ago ?q3 = None" "contains ?q3 ''last week''"
    by (simp_all add: weeks_ago_def days_ago_def is_digit_def)
  have q4: "weeks_ago ?q4 = None" "days_ago ?q4 = None" "\<not> contains ?q4 ''last week''"
    "contains ?q4 ''last month''"
    by (simp_all add: weeks_ago_def days_ago_def is_digit_def)
  have q5: "weeks_ago ?q5 = None" "days_ago ?q5 = None" "\<not> contains ?q5 ''last week''"
    "\<not> contains ?q5 ''last month''" "contains ?q5 ''yesterday''"
    by (simp_all add: weeks_ago_def days_ago_def is_digit_def)
  have q6: "weeks_ago ?q6 = None" "days_ago ?q6 = None" "\<not> contains ?q6 ''last week''"
    "\<not> contains ?q6 ''last month''" "\<not> contains ?q6 ''yesterday''"
    by (simp_all add: weeks_ago_def days_ago_def is_digit_def)
  from parse_temporal_rules [of ?q1 ?now] q1
  have r1: "parse_temporal ?q1 ?now = Some (7883200000, 8488000000)"
    by (simp add: day_ms_def hour_ms_def)
  from parse_temporal_rules [of ?q2 ?now] q2
  have r2: "parse_temporal ?q2 ?now = Some (9092800000, 9179200000)"
    by (simp add: day_ms_def hour_ms_def)
  from parse_temporal_rules [of ?q3 ?now] q3
  have r3: "parse_temporal ?q3 ?now = Some (8790400000, 9395200000)"
    by (simp add: day_ms_def hour_ms_def)
  from parse_temporal_rules [of ?q4 ?now] q4
  have r4: "parse_temporal ?q4 ?now = Some (7408000000, 10000000000)"
    by (simp add: day_ms_def hour_ms_def)
  from parse_temporal_rules [of ?q5 ?now] q5
  have r5: "parse_temporal ?q5 ?now = Some (9827200000, 9913600000)"
    by (simp add: day_ms_def hour_ms_def)
  from parse_temporal_rules [of ?q6 ?now] q6
  have r6: "parse_temporal ?q6 ?now = None" by blast
  from r1 r2 r3 r4 r5 r6 show ?thesis by blast
qed

section \<open>Graph-RAG query\<close>

lemma best_effort_empty: "best_effort (select_rows db []) = []"
  by (simp add: best_effort_def select_rows_def split: option.splits)

lemma no_entities_no_graph:
  "related_meetings_of db [] w = []"
  "related_people_of db [] [] = []"
  "related_topics_of normalize_name db [] = []"
  by (simp_all add: related_meetings_of_def related_people_of_def related_topics_of_def
      relation_links_def filter_empty_conv list_ex_iff)

lemma graph_rag_query_errors:
  "isl (graph_rag_query eng ee normalize_name now db question limit) =
     (isl (extract_with_relations ee question) \<or> isl (embed eng question)
      \<or> db_status db \<noteq> None)"
  using search_knowledge_errors [of eng db question limit None]
  by (auto simp: graph_rag_query_def Let_def split: sum.splits prod.splits)

lemma graph_rag_query_bundle:
  assumes "extract_with_relations ee question = Inr (entities, rels)"
    and "embed eng question = Inr qe" and "db_status db = None"
  shows "\<exists>b. graph_rag_query eng ee normalize_name now db question limit = Inr b
      \<and> query_entities b = entities
      \<and> temporal_window b = parse_temporal question now
      \<and> search_knowledge eng db question limit None = Inr (similar_chunks b)
      \<and> length (similar_chunks b) = min limit (length (knowledge_chunk db))
      \<and> (entities = [] \<longrightarrow>
            related_meetings b = [] \<and> related_people b = [] \<and> related_topics b = [])"
proof -
  from search_knowledge_count [OF assms(2,3)] obtain hits
    where hits: "search_knowledge eng db question limit None = Inr hits"
      and len: "length hits = min limit (length (knowledge_chunk db))"
    by blast
  show ?thesis
    using assms(1) hits len
    by (simp add: graph_rag_query_def Let_def no_entities_no_graph best_effort_empty)
qed

lemma ask_context_errors:
  "isl (ask_context eng ee normalize_name now db question) =
     (isl (embed eng question) \<or> db_status db \<noteq> None)"
  using graph_rag_query_errors [of eng ee normalize_name now db question 5]
    search_knowledge_errors [of eng db question 5 None]
  by (auto simp: ask_context_def split: sum.splits)

text \<open>
  Claim C1. For every question and every store, whatever it holds: when the entity
  extraction answers (with any entities, or none), the question is embedded and the store
  answers, the Graph-RAG query returns a bundle, with the extracted entities, the parsed
  window (or none) and, as its vector section, the results of the vector search, the
  smaller of \<open>limit\<close> and the number of chunks; when no entity is extracted, the sections
  of related meetings, people and topics are empty. The query returns an error only when
  the extraction or the embedding fails or the store does not answer, never for data that
  is not there. The retrieval of \<^verbatim>\<open>ask\<close>, which falls back to the vector search alone,
  fails only when the embedding fails or the store does not answer.
\<close>

theorem graph_rag_query_no_data:
  "(\<forall>entities rels qe.
       extract_with_relations ee question = Inr (entities, rels)
       \<and> embed eng question = Inr qe \<and> db_status db = None \<longrightarrow>
       (\<exists>b. graph_rag_query eng ee normalize_name now db question limit = Inr b
          \<and> query_entities b = entities
          \<and> temporal_window b = parse_temporal question now
          \<and> search_knowledge eng db question limit None = Inr (similar_chunks b)
          \<and> length (similar_chunks b) = min limit (length (knowledge_chunk db))
          \<and> (entities = [] \<longrightarrow>
                related_meetings b = [] \<and> related_people b = [] \<and> related_topics b = [])))
   \<and> isl (graph_rag_query eng ee normalize_name now db question limit) =
       (isl (extract_with_relations ee question) \<or> isl (embed eng question)
        \<or> db_status db \<noteq> None)
   \<and> isl (ask_context eng ee normalize_name now db question) =
       (isl (embed eng question) \<or> db_status db \<noteq> None)"
  using graph_rag_query_errors [of eng ee normalize_name now db question limit]
    graph_rag_query_bundle [where ee = ee and question = question and eng = eng and db = db
      and limit = limit and normalize_name = normalize_name and now = now]
    ask_context_errors [of eng ee normalize_name now db question]
  by blast

text \<open>
  The theorem at a question with no entity and no temporal phrase: over a store of three
  chunks and no meeting the graph sections are empty and the vector section has two hits;
  over the empty store the query returns the bundle with every section empty.
\<close>

theorem graph_rag_query_no_data_witness:
  "extract_with_relations ee_nothing ''What are the key topics?'' = Inr ([], [])
   \<and> parse_temporal ''What are the key topics?'' 10000000000 = None
   \<and> embed eng_first_component ''What are the key topics?'' = Inr [1]
   \<and> db_status kb_three_chunks = None \<and> db_status empty_kb = None
   \<and> (\<exists>b. graph_rag_query eng_first_component ee_nothing (\<lambda>name. name) 10000000000
              kb_three_chunks ''What are the key topics?'' 2 = Inr b
          \<and> query_entities b = []
          \<and> temporal_window b = None
          \<and> related_meetings b = [] \<and> related_people b = [] \<and> related_topics b = []
          \<and> map source_title (similar_chunks b) = [''Source knowledge_source:gone'', ''Example''])
   \<and> graph_rag_query eng_first_component ee_nothing (\<lambda>name. name) 10000000000
         empty_kb ''What are the key topics?'' 5 =
       Inr \<lparr>temporal_window = None, query_entities = [], related_meetings = [],
            related_people = [], related_topics = [], open_action_items = [],
            recent_decisions = [], similar_chunks = []\<rparr>"
proof -
  let ?q = "''What are the key topics?''"
  have ex: "extract_with_relations ee_nothing ?q = Inr ([], [])"
    by (simp add: extract_with_relations_def ee_nothing_def)
  have tp: "parse_temporal ?q 10000000000 = None"
    by (simp add: parse_temporal_def temporal_rules_def rule_weeks_ago_def rule_days_ago_def
      rule_last_week_def rule_last_month_def rule_yesterday_def is_digit_def)
  have e: "embed eng_first_component ?q = Inr [1]"
    by (simp add: eng_first_component_def)
  have st: "db_status kb_three_chunks = None" "db_status empty_kb = None"
    by (simp_all add: kb_three_chunks_def empty_kb_def)
  have titles: "\<And>hits. search_knowledge eng_first_component kb_three_chunks ?q 2 None = Inr hits
      \<Longrightarrow> map source_title hits = [''Source knowledge_source:gone'', ''Example'']"
    by (simp add: search_knowledge_def select_similar_chunks_def eng_first_component_def
        kb_three_chunks_def empty_kb_def tag_filter_def resolve_hit_def resolve_source_def
        get_knowledge_source_def select_source_def id_part_def source_prefix_def unwrap_or_def)
  from graph_rag_query_no_data [of ee_nothing ?q eng_first_component kb_three_chunks
      "\<lambda>name. name" 10000000000 2] ex e st(1)
  obtain b where b: "graph_rag_query eng_first_component ee_nothing (\<lambda>name. name) 10000000000
              kb_three_chunks ?q 2 = Inr b"
    "query_entities b = []" "temporal_window b = parse_temporal ?q 10000000000"
    "search_knowledge eng_first_component kb_three_chunks ?q 2 None = Inr (similar_chunks b)"
    "related_meetings b = [] \<and> related_people b = [] \<and> related_topics b = []"
    by blast
  have first: "\<exists>b. graph_rag_query eng_first_component ee_nothing (\<lambda>name. name) 10000000000
              kb_three_chunks ?q 2 = Inr b
          \<and> query_entities b = []
          \<and> temporal_window b = None
          \<and> related_meetings b = [] \<and> related_people b = [] \<and> related_topics b = []
          \<and> map source_title (similar_chunks b) = [''Source knowledge_source:gone'', ''Example'']"
    using b titles [OF b(4)] tp by auto
  from graph_rag_query_no_data [of ee_nothing ?q eng_first_component empty_kb
      "\<lambda>name. name" 10000000000 5] ex e st(2)
  obtain b0 where b0: "graph_rag_query eng_first_component ee_nothing (\<lambda>name. name) 10000000000
              empty_kb ?q 5 = Inr b0"
    by blast
  have empty: "graph_rag_query eng_first_component ee_nothing (\<lambda>name. name) 10000000000
         empty_kb ?q 5 =
       Inr \<lparr>temporal_window = None, query_entities = [], related_meetings = [],
            related_people = [], related_topics = [], open_action_items = [],
            recent_decisions = [], similar_chunks = []\<rparr>"
    using ex tp
    by (simp add: graph_rag_query_def Let_def search_knowledge_def select_similar_chunks_def
        eng_first_component_def empty_kb_def best_effort_def select_rows_def
        related_meetings_of_def related_people_of_def related_topics_of_def
        open_action_items_of_def recent_decisions_of_def scoped_def)
  from ex tp e st first empty b0 show ?thesis by blast
qed

end
